theory Spec2Isabelle
  imports Complex_Main
begin

unbundle bit_operations_syntax

section \<open>JavaScript values\<close>

text \<open>
  The two scripts under verification are \<open>clanker-harvest.mjs\<close> and
  \<open>compound-and-harvest.mjs\<close>. Token amounts are JavaScript \<open>BigInt\<close>s (unbounded
  integers, \<^typ>\<open>int\<close> here); percentages, prices and USD values are JavaScript Numbers.
  A Number is modelled by the rational it denotes, or \<open>NaN\<close>; infinities are left out.
  Comparisons of Numbers are exact, and every comparison with \<open>NaN\<close> is false.
\<close>

datatype error =
    RangeError        \<comment> \<open>BigInt division by zero, or \<open>BigInt(x)\<close> of a Number that is no integer\<close>
  | ContractError     \<comment> \<open>\<open>writeContract\<close> rejected the transaction\<close>
  | V4SwapReverted    \<comment> \<open>\<open>throw new Error(`V4 swap reverted: ...`)\<close>\<close>
  | NoV4PoolKey       \<comment> \<open>\<open>throw new Error(`No V4 pool key provided ...`)\<close>\<close>

datatype jsnum = Num rat | NaN

definition js_gt :: "jsnum \<Rightarrow> jsnum \<Rightarrow> bool" where
  "js_gt a b = (case (a, b) of (Num x, Num y) \<Rightarrow> x > y | _ \<Rightarrow> False)"

definition js_lt :: "jsnum \<Rightarrow> jsnum \<Rightarrow> bool" where
  "js_lt a b = (case (a, b) of (Num x, Num y) \<Rightarrow> x < y | _ \<Rightarrow> False)"

definition js_clamp :: "jsnum \<Rightarrow> jsnum" where
  \<comment> \<open>\<open>Math.max(0, Math.min(100, x))\<close>; both return \<open>NaN\<close> on a \<open>NaN\<close> argument\<close>
  "js_clamp x = (case x of NaN \<Rightarrow> NaN | Num r \<Rightarrow> Num (max 0 (min 100 r)))"

definition toBigInt :: "jsnum \<Rightarrow> error + int" where
  \<comment> \<open>\<open>BigInt(x)\<close> of a Number: a RangeError unless \<open>x\<close> is an integer\<close>
  "toBigInt x = (case x of NaN \<Rightarrow> Inl RangeError
     | Num r \<Rightarrow> (if r = of_int \<lfloor>r\<rfloor> then Inr \<lfloor>r\<rfloor> else Inl RangeError))"

definition bigint_quot :: "int \<Rightarrow> int \<Rightarrow> int" where
  \<comment> \<open>BigInt \<open>a / b\<close> for \<open>b \<noteq> 0\<close>: the quotient truncated towards zero\<close>
  "bigint_quot a b = sgn a * sgn b * (\<bar>a\<bar> div \<bar>b\<bar>)"

definition bigint_div :: "int \<Rightarrow> int \<Rightarrow> error + int" where
  \<comment> \<open>BigInt \<open>a / b\<close>: division by \<open>0n\<close> throws a RangeError\<close>
  "bigint_div a b = (if b = 0 then Inl RangeError else Inr (bigint_quot a b))"

definition bigint_rem :: "int \<Rightarrow> int \<Rightarrow> int" where
  \<comment> \<open>BigInt \<open>a % b\<close> for \<open>b \<noteq> 0\<close>: the sign follows the dividend\<close>
  "bigint_rem a b = sgn a * (\<bar>a\<bar> mod \<bar>b\<bar>)"

definition andThen :: "error + 'a \<Rightarrow> ('a \<Rightarrow> error + 'b) \<Rightarrow> error + 'b" where
  \<comment> \<open>sequencing of two computations that may throw\<close>
  "andThen m f = (case m of Inl e \<Rightarrow> Inl e | Inr x \<Rightarrow> f x)"

section \<open>Fee split\<close>

definition splitFees :: "int \<Rightarrow> int \<Rightarrow> int \<times> int" where
  \<comment> \<open>\<open>const compound = total * BigInt(pct) / 100n; const harvest = total - compound;\<close>
      (clanker-harvest lines 385-388, compound-and-harvest lines 1266-1269, once per currency)\<close>
  "splitFees totalAmt pct =
     (let compound = bigint_quot (totalAmt * pct) 100 in (compound, totalAmt - compound))"

section \<open>LiquidityMath\<close>

definition Q96 :: int where
  "Q96 = 2 ^ 96"

definition tickBits :: "(int \<times> int) list" where
  "tickBits =
    [(0x2, 0xfff97272373d413259a46990580e213a), (0x4, 0xfff2e50f5f656932ef12357cf3c7fdcc),
     (0x8, 0xffe5caca7e10e4e61c3624eaa0941cd0), (0x10, 0xffcb9843d60f6159c9db58835c926644),
     (0x20, 0xff973b41fa98c081472e6896dfb254c0), (0x40, 0xff2ea16466c96a3843ec78b326b52861),
     (0x80, 0xfe5dee046a99a2a811c461f1969c3053), (0x100, 0xfcbe86c7900a88aedcffc83b479aa3a4),
     (0x200, 0xf987a7253ac413176f2b074cf7815e54), (0x400, 0xf3392b0822b70005940c7a398e4b70f3),
     (0x800, 0xe7159475a2c29b7443b29c7fa6e889d9), (0x1000, 0xd097f3bdfd2022b8845ad8f792aa5825),
     (0x2000, 0xa9f746462d870fdf8a65dc1f90e061e5), (0x4000, 0x70d869a156d2a1b890bb3df62baf32f7),
     (0x8000, 0x31be135f97d08fd981231505542fcfa6), (0x10000, 0x9aa508b5b7a84e1c677de54f3e99bc9),
     (0x20000, 0x5d6af8dedb81196699c329225ee604), (0x40000, 0x2216e584f5fa1ea926041bedfe98),
     (0x80000, 0x48a170391f7dc42444e8fa2)]"

definition tickToSqrtPriceX96 :: "int \<Rightarrow> error + int" where
  \<comment> \<open>clanker-harvest lines 177-198; \<open>tick\<close> is a 24-bit signed value, so the Number
      operations \<open>Math.abs\<close> and \<open>&\<close> are exact\<close>
  "tickToSqrtPriceX96 tick =
    (let absTick = \<bar>tick\<bar>;
         ratio0 = (if absTick AND 0x1 \<noteq> 0 then 0xfffcb933bd6fad37aa2d162d1a594001 else push_bit 128 1);
         ratio1 = foldl (\<lambda>ratio (b, val). if absTick AND b \<noteq> 0 then drop_bit 128 (ratio * val) else ratio)
                    ratio0 tickBits
     in andThen (if tick > 0 then bigint_div (push_bit 256 1 - 1) ratio1 else Inr ratio1)
          (\<lambda>ratio. Inr (drop_bit 32 ratio + (if bigint_rem ratio (push_bit 32 1) = 0 then 0 else 1))))"

definition inlineLiquidity :: "int \<Rightarrow> int \<Rightarrow> int \<Rightarrow> int \<Rightarrow> int \<Rightarrow> error + int" where
  \<comment> \<open>clanker-harvest lines 448-456, the liquidity computed inside the compound step\<close>
  "inlineLiquidity sqrtPriceX96 sqrtLower sqrtUpper amount0 amount1 =
    (if sqrtPriceX96 \<le> sqrtLower then
       bigint_div (amount0 * sqrtLower * sqrtUpper) ((sqrtUpper - sqrtLower) * Q96)
     else if sqrtPriceX96 \<ge> sqrtUpper then
       bigint_div (amount1 * Q96) (sqrtUpper - sqrtLower)
     else
       andThen (bigint_div (amount0 * sqrtPriceX96 * sqrtUpper) ((sqrtUpper - sqrtPriceX96) * Q96)) (\<lambda>liq0.
       andThen (bigint_div (amount1 * Q96) (sqrtPriceX96 - sqrtLower)) (\<lambda>liq1.
       Inr (if liq0 < liq1 then liq0 else liq1))))"

definition liq0 :: "int \<Rightarrow> int \<Rightarrow> int \<Rightarrow> error + int" where
  \<comment> \<open>\<open>(a0, sqrtA, sqrtB) => (a0 * ((sqrtA * sqrtB) / Q96)) / (sqrtB - sqrtA)\<close>\<close>
  "liq0 a0 sqrtA sqrtB =
     andThen (bigint_div (sqrtA * sqrtB) Q96) (\<lambda>q. bigint_div (a0 * q) (sqrtB - sqrtA))"

definition liq1 :: "int \<Rightarrow> int \<Rightarrow> int \<Rightarrow> error + int" where
  \<comment> \<open>\<open>(a1, sqrtA, sqrtB) => (a1 * Q96) / (sqrtB - sqrtA)\<close>\<close>
  "liq1 a1 sqrtA sqrtB = bigint_div (a1 * Q96) (sqrtB - sqrtA)"

definition getLiquidityForAmounts :: "int \<Rightarrow> int \<Rightarrow> int \<Rightarrow> int \<Rightarrow> int \<Rightarrow> error + int" where
  \<comment> \<open>compound-and-harvest lines 760-772\<close>
  "getLiquidityForAmounts sqrtPriceX96 sqrtPriceA0 sqrtPriceB0 amount0 amount1 =
    (let (sqrtPriceA, sqrtPriceB) =
           (if sqrtPriceA0 > sqrtPriceB0 then (sqrtPriceB0, sqrtPriceA0) else (sqrtPriceA0, sqrtPriceB0))
     in if sqrtPriceX96 \<le> sqrtPriceA then liq0 amount0 sqrtPriceA sqrtPriceB
        else if sqrtPriceX96 < sqrtPriceB then
          andThen (liq0 amount0 sqrtPriceX96 sqrtPriceB) (\<lambda>l0.
          andThen (liq1 amount1 sqrtPriceA sqrtPriceX96) (\<lambda>l1.
          Inr (if l0 < l1 then l0 else l1)))
        else liq1 amount1 sqrtPriceA sqrtPriceB)"

section \<open>PriceOracle\<close>

text \<open>
  The price feed answers with a JSON body whose \<open>pairs\<close> field is a list of trading pairs,
  or is missing. \<open>FetchFailed\<close> stands for every way the \<open>try\<close> block can throw: the request
  fails, the body is no JSON, or \<open>pairs\<close> is no array. \<open>priceUsd\<close> is the Number that
  \<open>parseFloat(p.priceUsd)\<close> returns.
\<close>

record pair =
  chainId :: string
  quoteSymbol :: "string option"
  priceUsd :: jsnum

datatype response = FetchFailed | Body "pair list option"

definition getEthPrice :: "response \<Rightarrow> jsnum" where
  \<comment> \<open>clanker-harvest lines 159-166\<close>
  "getEthPrice r = (case r of
      FetchFailed \<Rightarrow> Num 2700
    | Body None \<Rightarrow> Num 2700
    | Body (Some pairs) \<Rightarrow>
        (case find (\<lambda>p. chainId p = ''base'' \<and> quoteSymbol p = Some ''USDC'') pairs of
           Some p \<Rightarrow> priceUsd p
         | None \<Rightarrow> Num 2700))"

definition getTokenPrice :: "response \<Rightarrow> jsnum" where
  \<comment> \<open>clanker-harvest lines 168-175: the first pair, whatever its chain\<close>
  "getTokenPrice r = (case r of
      FetchFailed \<Rightarrow> Num 0
    | Body None \<Rightarrow> Num 0
    | Body (Some pairs) \<Rightarrow> (case pairs of p # _ \<Rightarrow> priceUsd p | [] \<Rightarrow> Num 0))"

definition cah_getEthPrice :: "response \<Rightarrow> jsnum" where
  \<comment> \<open>compound-and-harvest lines 790-797\<close>
  "cah_getEthPrice r = (case r of
      FetchFailed \<Rightarrow> Num 3200
    | Body None \<Rightarrow> Num 3200
    | Body (Some pairs) \<Rightarrow>
        (case find (\<lambda>p. chainId p = ''base'' \<and> quoteSymbol p = Some ''USDC'') pairs of
           Some p \<Rightarrow> priceUsd p
         | None \<Rightarrow> Num 3200))"

definition cah_getTokenPrice :: "response \<Rightarrow> jsnum" where
  \<comment> \<open>compound-and-harvest lines 799-806\<close>
  "cah_getTokenPrice r = (case r of
      FetchFailed \<Rightarrow> Num 0
    | Body None \<Rightarrow> Num 0
    | Body (Some pairs) \<Rightarrow>
        (case find (\<lambda>p. chainId p = ''base'') pairs of
           Some p \<Rightarrow> priceUsd p
         | None \<Rightarrow> Num 0))"

section \<open>Contracts, transactions and the chain\<close>

text \<open>
  An address is the 160-bit number its hexadecimal string denotes, so the scripts'
  comparison of lower-cased strings is equality.
\<close>

type_synonym addr = int

definition WETH :: addr where
  "WETH = 0x4200000000000000000000000000000000000006"

definition USDC :: addr where
  "USDC = 0x833589fCD6eDb6E08f4c7C32D4f71b54bdA02913"

definition PERMIT2 :: addr where
  "PERMIT2 = 0x000000000022D473030F116dDEE9F6B43aC78BA3"

definition POSITION_MANAGER :: addr where
  "POSITION_MANAGER = 0x7c5f5a4bbd8fd63184577525326123b519429bdc"

definition SWAP_ROUTER :: addr where
  \<comment> \<open>\<open>C.SWAP_ROUTER\<close> and \<open>CONTRACTS.SWAP_ROUTER_02\<close> are the same address\<close>
  "SWAP_ROUTER = 0x2626664c2603336E57B271c5C0b26F421741e481"

definition UNIVERSAL_ROUTER :: addr where
  "UNIVERSAL_ROUTER = 0x6ff5693b99212da76ad316178a184ab56d299b43"

definition maxUint256 :: int where
  "maxUint256 = 2 ^ 256 - 1"

record poolKey =
  currency0 :: addr
  currency1 :: addr
  fee :: int
  tickSpacing :: int
  hooks :: addr

text \<open>
  A transaction is what one \<open>writeContract\<close> call submits. The hand-built calldata is kept
  as its decoded content; deadlines (wall-clock time) are left out.
\<close>

datatype tx =
    Claim addr addr addr
      \<comment> \<open>fee contract, fee owner, token: \<open>claim(feeOwner, token)\<close>\<close>
  | Approve addr addr int
      \<comment> \<open>token, spender, amount: ERC-20 \<open>approve\<close>\<close>
  | Permit2Approve addr addr int int
      \<comment> \<open>token, spender, amount, expiration: \<open>approve\<close> on Permit2\<close>
  | CollectFees int poolKey addr
      \<comment> \<open>position id, pool key, recipient: \<open>modifyLiquidities\<close> with DECREASE by 0 and CLOSE\_CURRENCY\<close>
  | IncreaseLiquidity int int int int poolKey
      \<comment> \<open>position id, liquidity, amount0Max, amount1Max, pool key: \<open>modifyLiquidities\<close>
          with INCREASE and SETTLE\_PAIR\<close>
  | ExactInputSingle addr addr int addr int int int
      \<comment> \<open>tokenIn, tokenOut, fee, recipient, amountIn, amountOutMinimum, sqrtPriceLimitX96\<close>
  | V4SwapExactInSingle poolKey bool int int int
      \<comment> \<open>pool key, zeroForOne, amountIn, amountOutMinimum, sqrtPriceLimitX96: \<open>execute\<close> on the
          Universal Router with the V4\_SWAP command\<close>
  | Transfer addr addr int
      \<comment> \<open>token, recipient, amount: ERC-20 \<open>transfer\<close>\<close>

text \<open>The console output is kept for the figures the pipeline computes.\<close>

datatype logmsg =
    TotalFees jsnum int int        \<comment> \<open>total USD, total WETH, total token\<close>
  | SplitCompound int int          \<comment> \<open>the compound amounts of the two currencies\<close>
  | SplitHarvest int int           \<comment> \<open>the harvest amounts of the two currencies\<close>
  | BelowThreshold
  | LiquidityToAdd int
  | ZeroLiquiditySkipped
  | CompoundFailed
  | SwapFailed
  | NoWethReceived

datatype event = Tx tx | Log logmsg

datatype 'w sent =
    Rejected          \<comment> \<open>\<open>writeContract\<close> throws; nothing is mined\<close>
  | Mined bool 'w     \<comment> \<open>the receipt's status is \<open>success\<close> or not, and the chain after the transaction\<close>

text \<open>
  The chain is a parameter of the model: \<open>'w\<close> is its state, the fields are the reads of
  the wallet's account and the effect of a submitted transaction. Reads do not fail (the RPC
  transport is outside the model), and the chain changes only by the wallet's transactions.
  The wallet's key is present: without it either script exits before its first read.
  \<open>getSlot0\<close> takes the pool key itself, in place of its hash.
\<close>

record 'w chain =
  account :: addr
  availableFees :: "'w \<Rightarrow> addr \<Rightarrow> addr \<Rightarrow> int"
  balanceOf :: "'w \<Rightarrow> addr \<Rightarrow> int"
  allowance :: "'w \<Rightarrow> addr \<Rightarrow> addr \<Rightarrow> int"
  permit2Allowance :: "'w \<Rightarrow> addr \<Rightarrow> addr \<Rightarrow> int"
  ownerOf :: "'w \<Rightarrow> int \<Rightarrow> addr"
  getPoolAndPositionInfo :: "'w \<Rightarrow> int \<Rightarrow> poolKey \<times> int"
  getPositionLiquidity :: "'w \<Rightarrow> int \<Rightarrow> int"
  getSlot0 :: "'w \<Rightarrow> poolKey \<Rightarrow> int"
  fetchPairs :: "'w \<Rightarrow> addr \<Rightarrow> response"
  writeContract :: "tx \<Rightarrow> 'w \<Rightarrow> 'w sent"

text \<open>
  Number computations whose rounding decides the result are parameters too: the USD value
  \<open>parseFloat(formatEther(w)) * ethPrice + parseFloat(formatEther(t)) * tokenPrice\<close>, the
  slippage multiplier \<open>BigInt(Math.floor((100 + slippage * 2) * 100))\<close>, and
  compound-and-harvest's \<open>tickToSqrtPriceX96\<close>,
  \<open>BigInt(Math.floor(Math.sqrt(Math.pow(1.0001, tick)) * Number(Q96)))\<close>.
\<close>

record floats =
  usdValue :: "jsnum \<Rightarrow> jsnum \<Rightarrow> int \<Rightarrow> int \<Rightarrow> jsnum"
  slippageMul :: "jsnum \<Rightarrow> error + int"
  sqrtPriceOfTick :: "int \<Rightarrow> error + int"

section \<open>Sequential effects\<close>

text \<open>
  A step of a script takes the chain state and ends by returning, by throwing, or by
  \<open>process.exit\<close>; it leaves a new chain state and the events it produced, in order.
\<close>

datatype 'a outcome = Done 'a | Thrown error | Exited nat

type_synonym ('w, 'a) io = "'w \<Rightarrow> 'a outcome \<times> 'w \<times> event list"

definition ret :: "'a \<Rightarrow> ('w, 'a) io" where
  "ret x = (\<lambda>w. (Done x, w, []))"

definition throw :: "error \<Rightarrow> ('w, 'a) io" where
  "throw e = (\<lambda>w. (Thrown e, w, []))"

definition exitProcess :: "nat \<Rightarrow> ('w, 'a) io" where
  "exitProcess n = (\<lambda>w. (Exited n, w, []))"

definition lift :: "error + 'a \<Rightarrow> ('w, 'a) io" where
  "lift r = (case r of Inl e \<Rightarrow> throw e | Inr x \<Rightarrow> ret x)"

definition bnd :: "('w, 'a) io \<Rightarrow> ('a \<Rightarrow> ('w, 'b) io) \<Rightarrow> ('w, 'b) io" where
  "bnd m f = (\<lambda>w. case m w of
      (Done x, w1, ev) \<Rightarrow> (case f x w1 of (r, w2, ev2) \<Rightarrow> (r, w2, ev @ ev2))
    | (Thrown e, w1, ev) \<Rightarrow> (Thrown e, w1, ev)
    | (Exited n, w1, ev) \<Rightarrow> (Exited n, w1, ev))"

definition tryCatch :: "('w, 'a) io \<Rightarrow> (error \<Rightarrow> ('w, 'a) io) \<Rightarrow> ('w, 'a) io" where
  \<comment> \<open>\<open>try { m } catch (err) { h }\<close>: \<open>process.exit\<close> is not caught\<close>
  "tryCatch m h = (\<lambda>w. case m w of
      (Thrown e, w1, ev) \<Rightarrow> (case h e w1 of (r, w2, ev2) \<Rightarrow> (r, w2, ev @ ev2))
    | (Done x, w1, ev) \<Rightarrow> (Done x, w1, ev)
    | (Exited n, w1, ev) \<Rightarrow> (Exited n, w1, ev))"

definition readChain :: "('w \<Rightarrow> 'a) \<Rightarrow> ('w, 'a) io" where
  "readChain g = (\<lambda>w. (Done (g w), w, []))"

definition logMsg :: "logmsg \<Rightarrow> ('w, unit) io" where
  "logMsg m = (\<lambda>w. (Done (), w, [Log m]))"

definition sendTx :: "'w chain \<Rightarrow> tx \<Rightarrow> ('w, bool) io" where
  \<comment> \<open>\<open>writeContract\<close> followed by \<open>waitForTransactionReceipt\<close>; the result is whether the
      receipt's status is \<open>success\<close>\<close>
  "sendTx c t = (\<lambda>w. case writeContract c t w of
      Rejected \<Rightarrow> (Thrown ContractError, w, [Tx t])
    | Mined ok w' \<Rightarrow> (Done ok, w', [Tx t]))"

definition sendAndWait :: "'w chain \<Rightarrow> tx \<Rightarrow> ('w, unit) io" where
  \<comment> \<open>the same where the script does not look at the receipt's status\<close>
  "sendAndWait c t = bnd (sendTx c t) (\<lambda>_. ret ())"

definition whenDo :: "bool \<Rightarrow> ('w, unit) io \<Rightarrow> ('w, unit) io" where
  \<comment> \<open>\<open>if (b) { m }\<close>\<close>
  "whenDo b m = (if b then m else ret ())"

definition events :: "'a outcome \<times> 'w \<times> event list \<Rightarrow> event list" where
  "events r = snd (snd r)"

definition outcome :: "'a outcome \<times> 'w \<times> event list \<Rightarrow> 'a outcome" where
  "outcome r = fst r"

definition txs :: "event list \<Rightarrow> tx list" where
  \<comment> \<open>the transactions among the events, in order\<close>
  "txs evs = concat (map (\<lambda>e. case e of Tx t \<Rightarrow> [t] | Log _ \<Rightarrow> []) evs)"

section \<open>clanker-harvest\<close>

record config =
  token :: addr                    \<comment> \<open>\<open>cfg.token\<close>; without it the script prints its usage and exits\<close>
  tokenId :: "int option"          \<comment> \<open>\<open>BigInt(cfg.tokenId)\<close>, or \<open>null\<close>\<close>
  harvestAddress :: "addr option"  \<comment> \<open>\<open>cfg.harvestAddress\<close>, or \<open>null\<close>\<close>
  compoundPct :: "int option"      \<comment> \<open>\<open>parseInt(...)\<close>: an integer, or \<open>NaN\<close> (\<open>None\<close>)\<close>
  minUsd :: jsnum
  slippage :: jsnum
  feeContract :: addr
  dryRun :: bool
  skipClaim :: bool
  skipLp :: bool

record result =
  totalUsd :: jsnum
  compounded :: "int option"       \<comment> \<open>\<open>cfg.compoundPct\<close>, or \<open>0\<close> on the early returns\<close>
  harvested :: int                 \<comment> \<open>\<open>harvestedUsdc\<close>, in units of $10^{-6}$ USDC\<close>
  belowThreshold :: bool           \<comment> \<open>the field is only set on the below-threshold return\<close>

definition harvestPct :: "config \<Rightarrow> int option" where
  "harvestPct cfg = map_option (\<lambda>p. 100 - p) (compoundPct cfg)"

definition wantCompound :: "config \<Rightarrow> bool" where
  "wantCompound cfg =
     ((case compoundPct cfg of Some p \<Rightarrow> p > 0 | None \<Rightarrow> False) \<and> tokenId cfg \<noteq> None)"

definition wantHarvest :: "config \<Rightarrow> bool" where
  "wantHarvest cfg =
     ((case harvestPct cfg of Some p \<Rightarrow> p > 0 | None \<Rightarrow> False) \<and> harvestAddress cfg \<noteq> None)"

definition claimStep :: "config \<Rightarrow> 'w chain \<Rightarrow> ('w, int \<times> int) io" where
  \<comment> \<open>lines 236-280; the result is \<open>(claimedWeth, claimedToken)\<close>\<close>
  "claimStep cfg c =
    (if \<not> skipClaim cfg then
       bnd (readChain (\<lambda>w. availableFees c w (feeContract cfg) WETH)) (\<lambda>availWeth.
       bnd (readChain (\<lambda>w. availableFees c w (feeContract cfg) (token cfg))) (\<lambda>availToken.
       if availWeth = 0 \<and> availToken = 0 then ret (0, 0)
       else if dryRun cfg then ret (availWeth, availToken)
       else
         bnd (if availToken > 0 then
                bnd (sendTx c (Claim (feeContract cfg) (account c) (token cfg))) (\<lambda>_. ret availToken)
              else ret 0) (\<lambda>claimedToken.
         bnd (if availWeth > 0 then
                bnd (sendTx c (Claim (feeContract cfg) (account c) WETH)) (\<lambda>_. ret availWeth)
              else ret 0) (\<lambda>claimedWeth.
         ret (claimedWeth, claimedToken)))))
     else ret (0, 0))"

definition approvePermit2 :: "'w chain \<Rightarrow> addr \<Rightarrow> ('w, unit) io" where
  \<comment> \<open>lines 310-316, the body of the loop over the pool's two currencies\<close>
  "approvePermit2 c a =
     bnd (readChain (\<lambda>w. allowance c w a PERMIT2)) (\<lambda>allow.
     whenDo (allow < 0xffffffffffffffffffffffff) (sendAndWait c (Approve a PERMIT2 maxUint256)))"

definition collectStep :: "config \<Rightarrow> 'w chain \<Rightarrow> ('w, int \<times> int \<times> poolKey option) io" where
  \<comment> \<open>lines 285-361; the result is \<open>(lpWeth, lpToken, poolKey)\<close>\<close>
  "collectStep cfg c =
    (case (if \<not> skipLp cfg then tokenId cfg else None) of
       None \<Rightarrow> ret (0, 0, None)
     | Some tid \<Rightarrow>
         bnd (readChain (\<lambda>w. fst (getPoolAndPositionInfo c w tid))) (\<lambda>poolKey.
         bnd (readChain (\<lambda>w. balanceOf c w WETH)) (\<lambda>wethBefore.
         bnd (readChain (\<lambda>w. balanceOf c w (token cfg))) (\<lambda>tokenBefore.
         if dryRun cfg then ret (0, 0, Some poolKey)
         else
           bnd (approvePermit2 c (currency0 poolKey)) (\<lambda>_.
           bnd (approvePermit2 c (currency1 poolKey)) (\<lambda>_.
           bnd (sendTx c (CollectFees tid poolKey (account c))) (\<lambda>_.
           bnd (readChain (\<lambda>w. balanceOf c w WETH)) (\<lambda>wethAfter.
           bnd (readChain (\<lambda>w. balanceOf c w (token cfg))) (\<lambda>tokenAfter.
           ret (wethAfter - wethBefore, tokenAfter - tokenBefore, Some poolKey))))))))))"

definition toInt24 :: "int \<Rightarrow> int" where
  \<comment> \<open>\<open>raw > 0x7FFFFF ? raw - 0x1000000 : raw\<close>\<close>
  "toInt24 v = (if v > 0x7FFFFF then v - 0x1000000 else v)"

definition compoundStep ::
  "config \<Rightarrow> floats \<Rightarrow> 'w chain \<Rightarrow> poolKey option \<Rightarrow> int \<Rightarrow> int \<Rightarrow> ('w, unit) io" where
  \<comment> \<open>lines 397-495\<close>
  "compoundStep cfg fp c poolKey0 compoundWeth compoundToken =
    (case (if wantCompound cfg \<and> (compoundWeth > 0 \<or> compoundToken > 0) then tokenId cfg else None) of
       None \<Rightarrow> ret ()
     | Some tid \<Rightarrow>
         if dryRun cfg then ret ()
         else
           tryCatch
             (bnd (case poolKey0 of
                     None \<Rightarrow> readChain (\<lambda>w. fst (getPoolAndPositionInfo c w tid))
                   | Some pk \<Rightarrow> ret pk) (\<lambda>poolKey.
              bnd (readChain (\<lambda>w. getSlot0 c w poolKey)) (\<lambda>sqrtPriceX96.
              bnd (readChain (\<lambda>w. snd (getPoolAndPositionInfo c w tid))) (\<lambda>posInfo.
              let rawLower = drop_bit 232 posInfo;
                  rawUpper = drop_bit 208 posInfo AND 0xFFFFFF;
                  tL = toInt24 rawLower;
                  tU = toInt24 rawUpper;
                  tickLower = min tL tU;
                  tickUpper = max tL tU
              in
              bnd (lift (tickToSqrtPriceX96 tickLower)) (\<lambda>sqrtLower.
              bnd (lift (tickToSqrtPriceX96 tickUpper)) (\<lambda>sqrtUpper.
              let isWethCurrency0 = (currency0 poolKey = WETH);
                  amount0 = (if isWethCurrency0 then compoundWeth else compoundToken);
                  amount1 = (if isWethCurrency0 then compoundToken else compoundWeth)
              in
              bnd (lift (inlineLiquidity sqrtPriceX96 sqrtLower sqrtUpper amount0 amount1)) (\<lambda>liquidity.
              if liquidity \<le> 0 then logMsg ZeroLiquiditySkipped
              else
                bnd (lift (slippageMul fp (slippage cfg))) (\<lambda>mul.
                let amount0Max = bigint_quot (amount0 * mul) 10000;
                    amount1Max = bigint_quot (amount1 * mul) 10000
                in sendAndWait c (IncreaseLiquidity tid liquidity amount0Max amount1Max poolKey)))))))))
             (\<lambda>err. logMsg CompoundFailed))"

definition swapPhase :: "config \<Rightarrow> 'w chain \<Rightarrow> int \<Rightarrow> int \<Rightarrow> ('w, unit) io" where
  \<comment> \<open>lines 511-537: the swaps between the two reads of the USDC balance; the token's own
      swap is not implemented and only logs\<close>
  "swapPhase cfg c harvestWeth harvestToken =
     whenDo (harvestWeth > 0)
       (tryCatch
          (bnd (readChain (\<lambda>w. allowance c w WETH SWAP_ROUTER)) (\<lambda>allow.
           bnd (whenDo (allow < harvestWeth) (sendAndWait c (Approve WETH SWAP_ROUTER maxUint256))) (\<lambda>_.
           sendAndWait c (ExactInputSingle WETH USDC 500 (account c) harvestWeth 0 0))))
          (\<lambda>err. logMsg SwapFailed))"

definition transferStep :: "config \<Rightarrow> 'w chain \<Rightarrow> addr \<Rightarrow> int \<Rightarrow> ('w, unit) io" where
  \<comment> \<open>lines 548-564\<close>
  "transferStep cfg c vault harvestedUsdc =
     whenDo (harvestedUsdc > 0)
       (if dryRun cfg then ret ()
        else sendAndWait c (Transfer USDC vault harvestedUsdc))"

definition harvestStep :: "config \<Rightarrow> 'w chain \<Rightarrow> int \<Rightarrow> int \<Rightarrow> ('w, int) io" where
  \<comment> \<open>lines 500-565; the result is \<open>harvestedUsdc\<close>\<close>
  "harvestStep cfg c harvestWeth harvestToken =
    (case (if wantHarvest cfg \<and> (harvestWeth > 0 \<or> harvestToken > 0) then harvestAddress cfg else None) of
       None \<Rightarrow> ret 0
     | Some vault \<Rightarrow>
         bnd (readChain (\<lambda>w. balanceOf c w USDC)) (\<lambda>usdcBefore.
         bnd (if dryRun cfg then ret 0
              else
                bnd (swapPhase cfg c harvestWeth harvestToken) (\<lambda>_.
                bnd (readChain (\<lambda>w. balanceOf c w USDC)) (\<lambda>usdcAfter.
                ret (usdcAfter - usdcBefore)))) (\<lambda>harvestedUsdc.
         bnd (transferStep cfg c vault harvestedUsdc) (\<lambda>_.
         ret harvestedUsdc))))"

definition processTotals ::
  "config \<Rightarrow> floats \<Rightarrow> 'w chain \<Rightarrow> jsnum \<Rightarrow> jsnum \<Rightarrow> int \<Rightarrow> int \<Rightarrow> poolKey option \<Rightarrow> ('w, result) io" where
  \<comment> \<open>lines 366-581: the threshold check, the split and the steps after it\<close>
  "processTotals cfg fp c ethPrice tokenPrice totalWeth totalToken poolKey =
    (let totalUsd = usdValue fp ethPrice tokenPrice totalWeth totalToken in
     bnd (logMsg (TotalFees totalUsd totalWeth totalToken)) (\<lambda>_.
     if totalWeth = 0 \<and> totalToken = 0 then
       ret \<lparr>totalUsd = Num 0, compounded = Some 0, harvested = 0, belowThreshold = False\<rparr>
     else if js_gt (minUsd cfg) (Num 0) \<and> js_lt totalUsd (minUsd cfg) then
       bnd (logMsg BelowThreshold) (\<lambda>_.
       ret \<lparr>totalUsd = totalUsd, compounded = Some 0, harvested = 0, belowThreshold = True\<rparr>)
     else
       bnd (lift (case compoundPct cfg of None \<Rightarrow> Inl RangeError | Some p \<Rightarrow> Inr p)) (\<lambda>pct.
       let (compoundWeth, harvestWeth) = splitFees totalWeth pct;
           (compoundToken, harvestToken) = splitFees totalToken pct
       in
       bnd (whenDo (wantCompound cfg) (logMsg (SplitCompound compoundWeth compoundToken))) (\<lambda>_.
       bnd (whenDo (wantHarvest cfg) (logMsg (SplitHarvest harvestWeth harvestToken))) (\<lambda>_.
       bnd (compoundStep cfg fp c poolKey compoundWeth compoundToken) (\<lambda>_.
       bnd (harvestStep cfg c harvestWeth harvestToken) (\<lambda>harvestedUsdc.
       ret \<lparr>totalUsd = totalUsd, compounded = compoundPct cfg, harvested = harvestedUsdc,
            belowThreshold = False\<rparr>)))))))"

definition gatherFees :: "config \<Rightarrow> 'w chain \<Rightarrow> ('w, int \<times> int \<times> poolKey option) io" where
  \<comment> \<open>lines 236-367: the claim and the collection, and the totals of both\<close>
  "gatherFees cfg c =
     bnd (claimStep cfg c) (\<lambda>(claimedWeth, claimedToken).
     bnd (collectStep cfg c) (\<lambda>(lpWeth, lpToken, poolKey).
     ret (claimedWeth + lpWeth, claimedToken + lpToken, poolKey)))"

definition main :: "config \<Rightarrow> floats \<Rightarrow> 'w chain \<Rightarrow> ('w, result) io" where
  \<comment> \<open>lines 201-582\<close>
  "main cfg fp c =
     bnd (readChain (\<lambda>w. getEthPrice (fetchPairs c w WETH))) (\<lambda>ethPrice.
     bnd (readChain (\<lambda>w. getTokenPrice (fetchPairs c w (token cfg)))) (\<lambda>tokenPrice.
     bnd (gatherFees cfg c) (\<lambda>(totalWeth, totalToken, poolKey).
     processTotals cfg fp c ethPrice tokenPrice totalWeth totalToken poolKey)))"

section \<open>compound-and-harvest\<close>

record argv =
  arg_tokenId :: int             \<comment> \<open>\<open>--token-id\<close>\<close>
  arg_harvestAddress :: addr     \<comment> \<open>\<open>--harvest-address\<close>\<close>
  arg_compoundPct :: jsnum       \<comment> \<open>\<open>--compound-pct\<close>, a Number\<close>
  arg_dryRun :: bool             \<comment> \<open>\<open>--dry-run\<close>\<close>
  arg_slippage :: jsnum          \<comment> \<open>\<open>--slippage\<close>\<close>

datatype addResult =
    ZeroLiquidity       \<comment> \<open>\<open>{ success: false, reason: 'zero-liquidity' }\<close>\<close>
  | Submitted bool int  \<comment> \<open>\<open>{ success: receipt.status === 'success', ..., newLiquidity }\<close>\<close>

definition success :: "addResult \<Rightarrow> bool" where
  "success r = (case r of ZeroLiquidity \<Rightarrow> False | Submitted ok _ \<Rightarrow> ok)"

definition collectFees :: "'w chain \<Rightarrow> int \<Rightarrow> poolKey \<Rightarrow> ('w, bool) io" where
  \<comment> \<open>lines 823-855; the result is whether the receipt's status is \<open>success\<close>\<close>
  "collectFees c tid poolKey = sendTx c (CollectFees tid poolKey (account c))"

definition ensureApproved :: "'w chain \<Rightarrow> addr \<Rightarrow> int \<Rightarrow> ('w, unit) io" where
  \<comment> \<open>lines 872-885, the body of the loop over the pool's two currencies\<close>
  "ensureApproved c a amount =
     whenDo (\<not> amount \<le> 0)
       (bnd (readChain (\<lambda>w. allowance c w a PERMIT2)) (\<lambda>allow.
        whenDo (allow < amount) (sendAndWait c (Approve a PERMIT2 maxUint256))))"

definition addLiquidity ::
  "floats \<Rightarrow> 'w chain \<Rightarrow> int \<Rightarrow> poolKey \<Rightarrow> int \<Rightarrow> int \<Rightarrow> int \<Rightarrow> int \<Rightarrow> int \<Rightarrow> ('w, addResult) io" where
  \<comment> \<open>lines 859-921\<close>
  "addLiquidity fp c tid poolKey amount0 amount1 sqrtPriceX96 tickLower tickUpper =
     bnd (lift (sqrtPriceOfTick fp tickLower)) (\<lambda>sqrtPriceLower.
     bnd (lift (sqrtPriceOfTick fp tickUpper)) (\<lambda>sqrtPriceUpper.
     bnd (lift (getLiquidityForAmounts sqrtPriceX96 sqrtPriceLower sqrtPriceUpper amount0 amount1)) (\<lambda>newLiquidity.
     if newLiquidity \<le> 0 then ret ZeroLiquidity
     else
       bnd (logMsg (LiquidityToAdd newLiquidity)) (\<lambda>_.
       bnd (ensureApproved c (currency0 poolKey) amount0) (\<lambda>_.
       bnd (ensureApproved c (currency1 poolKey) amount1) (\<lambda>_.
       let amount0Max = (if amount0 > 0 then bigint_quot (amount0 * 150) 100 else 0);
           amount1Max = (if amount1 > 0 then bigint_quot (amount1 * 150) 100 else 0)
       in bnd (sendTx c (IncreaseLiquidity tid newLiquidity amount0Max amount1Max poolKey)) (\<lambda>ok.
          ret (Submitted ok newLiquidity))))))))"

definition swapViaV4ToWeth :: "'w chain \<Rightarrow> addr \<Rightarrow> int \<Rightarrow> poolKey \<Rightarrow> ('w, unit) io" where
  \<comment> \<open>lines 932-1028\<close>
  "swapViaV4ToWeth c tokenAddress amount poolKey =
     bnd (readChain (\<lambda>w. allowance c w tokenAddress PERMIT2)) (\<lambda>erc20Allowance.
     bnd (whenDo (erc20Allowance < amount) (sendAndWait c (Approve tokenAddress PERMIT2 maxUint256))) (\<lambda>_.
     bnd (readChain (\<lambda>w. permit2Allowance c w tokenAddress UNIVERSAL_ROUTER)) (\<lambda>permit2Amount.
     bnd (whenDo (permit2Amount < amount)
            (sendAndWait c (Permit2Approve tokenAddress UNIVERSAL_ROUTER (2 ^ 160 - 1) (2 ^ 48 - 1)))) (\<lambda>_.
     let tokenIsC0 = (tokenAddress = currency0 poolKey);
         zeroForOne = tokenIsC0
     in bnd (sendTx c (V4SwapExactInSingle poolKey zeroForOne amount 0 0)) (\<lambda>ok.
        if \<not> ok then throw V4SwapReverted else ret ())))))"

lemma bnd_cong [fundef_cong]:
  "m w = m' w' \<Longrightarrow> (\<And>x w1 ev. m' w' = (Done x, w1, ev) \<Longrightarrow> f x w1 = f' x w1)
   \<Longrightarrow> bnd m f w = bnd m' f' w'"
  by (auto simp: bnd_def split: prod.splits outcome.splits)

function swapToUsdc ::
  "'w chain \<Rightarrow> addr \<Rightarrow> int \<Rightarrow> jsnum \<Rightarrow> poolKey option \<Rightarrow> ('w, bool) io" where
  \<comment> \<open>lines 1030-1102; the result is whether the returned \<open>hash\<close> is not \<open>null\<close>\<close>
  "swapToUsdc c tokenAddress amount slippagePct v4PoolKey w =
    (if amount \<le> 0 then ret False w
     else
       let isWeth = (tokenAddress = WETH);
           isUsdc = (tokenAddress = USDC)
       in if isUsdc then ret False w
          else if isWeth then
            bnd (readChain (\<lambda>w. allowance c w tokenAddress SWAP_ROUTER)) (\<lambda>allow.
            bnd (whenDo (allow < amount) (sendAndWait c (Approve tokenAddress SWAP_ROUTER maxUint256))) (\<lambda>_.
            bnd (sendTx c (ExactInputSingle WETH USDC 500 (account c) amount 0 0)) (\<lambda>_.
            ret True))) w
          else
            (case v4PoolKey of
               None \<Rightarrow> throw NoV4PoolKey w
             | Some poolKey \<Rightarrow>
                 bnd (readChain (\<lambda>w. balanceOf c w WETH)) (\<lambda>wethBefore.
                 bnd (swapViaV4ToWeth c tokenAddress amount poolKey) (\<lambda>_.
                 bnd (readChain (\<lambda>w. balanceOf c w WETH)) (\<lambda>wethAfter.
                 let wethGained = wethAfter - wethBefore
                 in if wethGained > 0 then
                      bnd (\<lambda>w'. swapToUsdc c WETH wethGained slippagePct None w') (\<lambda>_. ret True)
                    else bnd (logMsg NoWethReceived) (\<lambda>_. ret True)))) w))"
  by pat_completeness auto
termination
  by (relation "measure (\<lambda>(c, tokenAddress, amount, slippagePct, v4PoolKey, w).
        if tokenAddress = WETH then 0 else 1)") auto

declare swapToUsdc.simps [simp del]

definition cah_swapPhase :: "'w chain \<Rightarrow> poolKey \<Rightarrow> int \<Rightarrow> int \<Rightarrow> jsnum \<Rightarrow> ('w, unit) io" where
  \<comment> \<open>lines 1311-1338: the two swaps between the two reads of the USDC balance\<close>
  "cah_swapPhase c poolKey harvest0 harvest1 slippagePct =
     bnd (whenDo (harvest0 > 0)
            (tryCatch
               (bnd (swapToUsdc c (currency0 poolKey) harvest0 slippagePct (Some poolKey)) (\<lambda>_. ret ()))
               (\<lambda>err. logMsg SwapFailed))) (\<lambda>_.
     whenDo (harvest1 > 0)
       (tryCatch
          (bnd (swapToUsdc c (currency1 poolKey) harvest1 slippagePct (Some poolKey)) (\<lambda>_. ret ()))
          (\<lambda>err. logMsg SwapFailed)))"

definition cah_transferStep :: "'w chain \<Rightarrow> addr \<Rightarrow> int \<Rightarrow> ('w, unit) io" where
  \<comment> \<open>lines 1345-1365\<close>
  "cah_transferStep c vault usdcHarvested =
    (if usdcHarvested \<le> 0 then exitProcess 1
     else
       bnd (sendTx c (Transfer USDC vault usdcHarvested)) (\<lambda>ok.
       if \<not> ok then exitProcess 1 else ret ()))"

definition cah_harvest :: "'w chain \<Rightarrow> poolKey \<Rightarrow> addr \<Rightarrow> int \<Rightarrow> int \<Rightarrow> jsnum \<Rightarrow> ('w, unit) io" where
  \<comment> \<open>lines 1296-1365\<close>
  "cah_harvest c poolKey vault harvest0 harvest1 slippagePct =
    (if harvest0 \<le> 0 \<and> harvest1 \<le> 0 then exitProcess 0
     else
       bnd (readChain (\<lambda>w. balanceOf c w USDC)) (\<lambda>usdcBefore.
       bnd (cah_swapPhase c poolKey harvest0 harvest1 slippagePct) (\<lambda>_.
       bnd (readChain (\<lambda>w. balanceOf c w USDC)) (\<lambda>usdcAfter.
       let usdcHarvested = usdcAfter - usdcBefore
       in cah_transferStep c vault usdcHarvested))))"

definition cah_splitAndCompound ::
  "floats \<Rightarrow> 'w chain \<Rightarrow> int \<Rightarrow> poolKey \<Rightarrow> jsnum \<Rightarrow> int \<Rightarrow> int \<Rightarrow> int \<Rightarrow> int \<Rightarrow> int \<Rightarrow> ('w, int \<times> int) io" where
  \<comment> \<open>lines 1266-1294; the result is \<open>(harvest0, harvest1)\<close> as the swaps receive them\<close>
  "cah_splitAndCompound fp c tid poolKey pctNumber fees0 fees1 sqrtPriceX96 tickLower tickUpper =
     bnd (lift (toBigInt pctNumber)) (\<lambda>pct.
     let (compound0, harvest0) = splitFees fees0 pct;
         (compound1, harvest1) = splitFees fees1 pct
     in
     bnd (logMsg (SplitCompound compound0 compound1)) (\<lambda>_.
     bnd (logMsg (SplitHarvest harvest0 harvest1)) (\<lambda>_.
     bnd (whenDo (compound0 > 0 \<or> compound1 > 0)
            (bnd (addLiquidity fp c tid poolKey compound0 compound1 sqrtPriceX96 tickLower tickUpper)
               (\<lambda>addResult. if success addResult then ret () else logMsg CompoundFailed))) (\<lambda>_.
     ret (harvest0, harvest1)))))"

definition cah_main :: "argv \<Rightarrow> floats \<Rightarrow> 'w chain \<Rightarrow> ('w, unit) io" where
  \<comment> \<open>lines 1106-1378\<close>
  "cah_main av fp c =
    (let tid = arg_tokenId av;
         vault = arg_harvestAddress av;
         pctNumber = js_clamp (arg_compoundPct av);
         slippagePct = arg_slippage av
     in
     bnd (readChain (\<lambda>w. ownerOf c w tid)) (\<lambda>owner.
     if owner \<noteq> account c then exitProcess 1
     else
       bnd (readChain (\<lambda>w. getPoolAndPositionInfo c w tid)) (\<lambda>(poolKey, posInfo).
       bnd (readChain (\<lambda>w. getPositionLiquidity c w tid)) (\<lambda>liquidity.
       if liquidity = 0 then exitProcess 0
       else
         bnd (readChain (\<lambda>w. getSlot0 c w poolKey)) (\<lambda>sqrtPriceX96.
         let rawA = (let v = drop_bit 32 posInfo AND 0xFFFFFF in if v \<ge> 0x800000 then v - 0x1000000 else v);
             rawB = (let v = drop_bit 8 posInfo AND 0xFFFFFF in if v \<ge> 0x800000 then v - 0x1000000 else v);
             tickLower = min rawA rawB;
             tickUpper = max rawA rawB
         in
         bnd (readChain (\<lambda>w. balanceOf c w (currency0 poolKey))) (\<lambda>token0Before.
         bnd (readChain (\<lambda>w. balanceOf c w (currency1 poolKey))) (\<lambda>token1Before.
         if arg_dryRun av then exitProcess 0
         else
           bnd (collectFees c tid poolKey) (\<lambda>collected.
           if \<not> collected then exitProcess 1
           else
             bnd (readChain (\<lambda>w. balanceOf c w (currency0 poolKey))) (\<lambda>token0After.
             bnd (readChain (\<lambda>w. balanceOf c w (currency1 poolKey))) (\<lambda>token1After.
             let fees0 = token0After - token0Before;
                 fees1 = token1After - token1Before
             in
             if fees0 \<le> 0 \<and> fees1 \<le> 0 then exitProcess 0
             else
               bnd (cah_splitAndCompound fp c tid poolKey pctNumber fees0 fees1
                      sqrtPriceX96 tickLower tickUpper) (\<lambda>(harvest0, harvest1).
               cah_harvest c poolKey vault harvest0 harvest1 slippagePct)))))))))))"

section \<open>Reading a run\<close>

definition worldAfter :: "'a outcome \<times> 'w \<times> event list \<Rightarrow> 'w" where
  "worldAfter r = fst (snd r)"

definition isTransfer :: "tx \<Rightarrow> bool" where
  "isTransfer t = (case t of Transfer _ _ _ \<Rightarrow> True | _ \<Rightarrow> False)"

definition transfers :: "event list \<Rightarrow> tx list" where
  \<comment> \<open>the ERC-20 transfers among the events, in order\<close>
  "transfers evs = filter isTransfer (txs evs)"

definition notTransfer :: "event \<Rightarrow> bool" where
  "notTransfer e = (case e of Tx t \<Rightarrow> \<not> isTransfer t | Log _ \<Rightarrow> True)"

definition isLog :: "event \<Rightarrow> bool" where
  "isLog e = (case e of Log _ \<Rightarrow> True | Tx _ \<Rightarrow> False)"

definition gatherTx :: "tx \<Rightarrow> bool" where
  \<comment> \<open>a transaction of the claim and collect steps: a fee claim, an approval to Permit2,
      or the fee collection\<close>
  "gatherTx t = (case t of
      Claim _ _ _ \<Rightarrow> True
    | Approve _ spender _ \<Rightarrow> spender = PERMIT2
    | CollectFees _ _ _ \<Rightarrow> True
    | _ \<Rightarrow> False)"

definition swapLimits :: "tx \<Rightarrow> (int \<times> int) option" where
  \<comment> \<open>\<open>(amountOutMinimum, sqrtPriceLimitX96)\<close> of a swap, \<open>None\<close> for any other transaction\<close>
  "swapLimits t = (case t of
      ExactInputSingle _ _ _ _ _ amountOutMinimum sqrtPriceLimitX96 \<Rightarrow>
        Some (amountOutMinimum, sqrtPriceLimitX96)
    | V4SwapExactInSingle _ _ _ amountOutMinimum sqrtPriceLimitX96 \<Rightarrow>
        Some (amountOutMinimum, sqrtPriceLimitX96)
    | _ \<Rightarrow> None)"

definition allEvents :: "(event \<Rightarrow> bool) \<Rightarrow> ('w, 'a) io \<Rightarrow> bool" where
  \<comment> \<open>every event of every run of the step satisfies \<open>P\<close>\<close>
  "allEvents P m = (\<forall>w. list_all P (events (m w)))"

definition noExit :: "('w, 'a) io \<Rightarrow> bool" where
  \<comment> \<open>the step never ends the process\<close>
  "noExit m = (\<forall>w n. outcome (m w) \<noteq> Exited n)"

definition onTxs :: "(tx \<Rightarrow> bool) \<Rightarrow> event \<Rightarrow> bool" where
  \<comment> \<open>a predicate on transactions, as a predicate on events that holds of every log line\<close>
  "onTxs P e = (case e of Tx t \<Rightarrow> P t | Log _ \<Rightarrow> True)"

definition unguarded :: "event \<Rightarrow> bool" where
  \<comment> \<open>no swap, or a swap that accepts any output amount and any price\<close>
  "unguarded = onTxs (\<lambda>t. swapLimits t = None \<or> swapLimits t = Some (0, 0))"

definition fromHarvestStep :: "config \<Rightarrow> 'w chain \<Rightarrow> event \<Rightarrow> bool" where
  \<comment> \<open>a transfer is one that some run of clanker-harvest's harvest step sends\<close>
  "fromHarvestStep cfg c = onTxs (\<lambda>t. isTransfer t \<longrightarrow>
      (\<exists>hw ht w. t \<in> set (transfers (events (harvestStep cfg c hw ht w)))))"

definition fromCahHarvest :: "'w chain \<Rightarrow> addr \<Rightarrow> event \<Rightarrow> bool" where
  \<comment> \<open>a transfer is one that some run of compound-and-harvest's harvest step sends\<close>
  "fromCahHarvest c vault = onTxs (\<lambda>t. isTransfer t \<longrightarrow>
      (\<exists>pk h0 h1 s w. t \<in> set (transfers (events (cah_harvest c pk vault h0 h1 s w)))))"

section \<open>A small chain for examples\<close>

text \<open>
  A chain with one pool (WETH and one token), fees waiting in the fee contract and in the
  position, and fixed swap rates: 3 USDC units per WETH unit, 1 WETH unit per 2 token units.
  All allowances are already granted. An increase of liquidity is rejected.
\<close>

definition demoToken :: addr where
  "demoToken = 0xf3Ce5dDAAb6C133F9875a4a46C55cf0b58111B07"

definition demoVault :: addr where
  "demoVault = 0xcbC7E8A39A0Ec84d6B0e8e0dd98655F348ECD44F"

definition demoAccount :: addr where
  "demoAccount = 0xA11CE"

definition demoFeeContract :: addr where
  "demoFeeContract = 0xf3622742b1e446d92e45e22923ef11c2fcd55d68"

definition demoPool :: poolKey where
  "demoPool = \<lparr>currency0 = WETH, currency1 = demoToken, fee = 8388608, tickSpacing = 200, hooks = 0\<rparr>"

definition demoPosInfo :: int where
  \<comment> \<open>the ticks -600 and 600, at the bit positions either script reads\<close>
  "demoPosInfo = push_bit 232 (-600 + 0x1000000) + push_bit 208 600 + push_bit 32 600
                 + push_bit 8 (-600 + 0x1000000)"

record world =
  wethBal :: int
  tokenBal :: int
  usdcBal :: int
  feesWeth :: int
  feesToken :: int
  lpWeth :: int
  lpToken :: int
  sqrtPrice :: int
  feedUp :: bool

definition demoChain :: "world chain" where
  "demoChain = \<lparr>
     account = demoAccount,
     availableFees = (\<lambda>w fc a. if a = WETH then feesWeth w else if a = demoToken then feesToken w else 0),
     balanceOf = (\<lambda>w a. if a = WETH then wethBal w else if a = USDC then usdcBal w
                          else if a = demoToken then tokenBal w else 0),
     allowance = (\<lambda>w a s. maxUint256),
     permit2Allowance = (\<lambda>w a s. 2 ^ 160 - 1),
     ownerOf = (\<lambda>w tid. demoAccount),
     getPoolAndPositionInfo = (\<lambda>w tid. (demoPool, demoPosInfo)),
     getPositionLiquidity = (\<lambda>w tid. 1000000),
     getSlot0 = (\<lambda>w pk. sqrtPrice w),
     fetchPairs = (\<lambda>w a. if feedUp w then Body (Some [\<lparr>chainId = ''base'', quoteSymbol = Some ''USDC'', priceUsd = Num 3000\<rparr>]) else FetchFailed),
     writeContract = (\<lambda>t w. case t of
         Claim fc owner a \<Rightarrow>
           if a = WETH then Mined True (w\<lparr>wethBal := wethBal w + feesWeth w, feesWeth := 0\<rparr>)
           else Mined True (w\<lparr>tokenBal := tokenBal w + feesToken w, feesToken := 0\<rparr>)
       | CollectFees tid pk rcpt \<Rightarrow>
           Mined True (w\<lparr>wethBal := wethBal w + lpWeth w, tokenBal := tokenBal w + lpToken w,
                          lpWeth := 0, lpToken := 0\<rparr>)
       | ExactInputSingle tin tout f rcpt amt minOut lmt \<Rightarrow>
           Mined True (w\<lparr>wethBal := wethBal w - amt, usdcBal := usdcBal w + 3 * amt\<rparr>)
       | V4SwapExactInSingle pk z amt minOut lmt \<Rightarrow>
           Mined True (w\<lparr>tokenBal := tokenBal w - amt, wethBal := wethBal w + amt div 2\<rparr>)
       | Transfer a to amt \<Rightarrow> Mined True (w\<lparr>usdcBal := usdcBal w - amt\<rparr>)
       | IncreaseLiquidity tid l a0 a1 pk \<Rightarrow> Rejected
       | _ \<Rightarrow> Mined True w)\<rparr>"

definition demoFloats :: floats where
  "demoFloats = \<lparr>
     usdValue = (\<lambda>ethPrice tokenPrice w t. case (ethPrice, tokenPrice) of
        (Num p, Num q) \<Rightarrow> Num (of_int w / 10 ^ 18 * p + of_int t / 10 ^ 18 * q) | _ \<Rightarrow> NaN),
     slippageMul = (\<lambda>s. case s of Num r \<Rightarrow> Inr \<lfloor>(100 + r * 2) * 100\<rfloor> | NaN \<Rightarrow> Inl RangeError),
     sqrtPriceOfTick = (\<lambda>t. Inr (Q96 + t * 2 ^ 80))\<rparr>"

definition demoWorld :: world where
  "demoWorld = \<lparr>wethBal = 5000, tokenBal = 70000, usdcBal = 900, feesWeth = 1000, feesToken = 0,
     lpWeth = 400, lpToken = 0, sqrtPrice = Q96, feedUp = False\<rparr>"

definition demoCfg :: config where
  "demoCfg = \<lparr>token = demoToken, tokenId = Some 1078751, harvestAddress = Some demoVault,
     compoundPct = Some 50, minUsd = Num 0, slippage = Num 1,
     feeContract = demoFeeContract,
     dryRun = False, skipClaim = False, skipLp = False\<rparr>"

definition demoArgv :: argv where
  "demoArgv = \<lparr>arg_tokenId = 1078751, arg_harvestAddress = demoVault, arg_compoundPct = Num 50,
      arg_dryRun = False, arg_slippage = Num 1\<rparr>"

section \<open>Properties of the pure functions\<close>

lemma bigint_quot_nonneg: "0 \<le> a \<Longrightarrow> 0 < b \<Longrightarrow> bigint_quot a b = a div b"
  by (cases "a = 0") (simp_all add: bigint_quot_def)

text \<open>
  C1. For a compound percentage in [0,100] and nonnegative totals \<open>T0\<close>, \<open>T1\<close>, the split of
  each currency is \<open>T * pct / 100\<close> truncated for the compound side and \<open>T\<close> minus that for
  the harvest side, so both sides add up to \<open>T\<close> exactly, for each currency on its own.
\<close>

theorem split_conservation:
  assumes "0 \<le> pct" and "pct \<le> 100" and "0 \<le> T0" and "0 \<le> T1"
  shows "splitFees T0 pct = (T0 * pct div 100, T0 - T0 * pct div 100)
       \<and> splitFees T1 pct = (T1 * pct div 100, T1 - T1 * pct div 100)
       \<and> fst (splitFees T0 pct) + snd (splitFees T0 pct) = T0
       \<and> fst (splitFees T1 pct) + snd (splitFees T1 pct) = T1"
proof -
  have "bigint_quot (T * pct) 100 = T * pct div 100" if "0 \<le> T" for T
    using that assms(1) by (simp add: bigint_quot_nonneg)
  then show ?thesis
    using assms(3,4) by (simp add: splitFees_def Let_def)
qed

theorem split_conservation_witness:
  "splitFees 1000000 50 = (500000, 500000) \<and> splitFees 7 33 = (2, 5)
   \<and> fst (splitFees 1000000 50) + snd (splitFees 1000000 50) = 1000000
   \<and> fst (splitFees 7 33) + snd (splitFees 7 33) = 7"
  using split_conservation [of 50 1000000 7] split_conservation [of 33 7 7] by simp

section \<open>Events of composed steps\<close>

lemma allEvents_ret: "allEvents P (ret x)" by (simp add: allEvents_def ret_def events_def)
lemma allEvents_throw: "allEvents P (throw e)" by (simp add: allEvents_def throw_def events_def)
lemma allEvents_exit: "allEvents P (exitProcess n)" by (simp add: allEvents_def exitProcess_def events_def)
lemma allEvents_readChain: "allEvents P (readChain g)" by (simp add: allEvents_def readChain_def events_def)
lemma allEvents_lift: "allEvents P (lift r)" by (cases r) (simp_all add: lift_def allEvents_ret allEvents_throw)
lemma allEvents_logMsg: "P (Log m) \<Longrightarrow> allEvents P (logMsg m)" by (simp add: allEvents_def logMsg_def events_def)
lemma allEvents_sendTx: "P (Tx t) \<Longrightarrow> allEvents P (sendTx c t)"
  by (simp add: allEvents_def sendTx_def events_def split: sent.splits)
lemma allEvents_bnd: "allEvents P m \<Longrightarrow> (\<And>x. allEvents P (f x)) \<Longrightarrow> allEvents P (bnd m f)"
  unfolding allEvents_def bnd_def events_def
  by (auto split: prod.splits outcome.splits) (metis snd_conv)+
lemma allEvents_tryCatch: "allEvents P m \<Longrightarrow> (\<And>e. allEvents P (h e)) \<Longrightarrow> allEvents P (tryCatch m h)"
  unfolding allEvents_def tryCatch_def events_def
  by (auto split: prod.splits outcome.splits) (metis snd_conv)+
lemma allEvents_sendAndWait: "P (Tx t) \<Longrightarrow> allEvents P (sendAndWait c t)"
  by (simp add: sendAndWait_def allEvents_bnd allEvents_sendTx allEvents_ret)
lemma allEvents_whenDo: "(b \<Longrightarrow> allEvents P m) \<Longrightarrow> allEvents P (whenDo b m)"
  by (simp add: whenDo_def allEvents_ret)

lemmas allEvents_intros = allEvents_ret allEvents_throw allEvents_exit allEvents_readChain allEvents_lift
  allEvents_logMsg allEvents_sendTx allEvents_bnd allEvents_tryCatch allEvents_sendAndWait allEvents_whenDo

lemma transfers_append: "transfers (xs @ ys) = transfers xs @ transfers ys"
  by (simp add: transfers_def txs_def)

lemma transfers_none: "list_all notTransfer evs \<Longrightarrow> transfers evs = []"
  by (induction evs) (auto simp: transfers_def txs_def notTransfer_def split: event.splits)

lemma noExit_ret: "noExit (ret x)" by (simp add: noExit_def ret_def outcome_def)
lemma noExit_throw: "noExit (throw e)" by (simp add: noExit_def throw_def outcome_def)
lemma noExit_readChain: "noExit (readChain g)" by (simp add: noExit_def readChain_def outcome_def)
lemma noExit_lift: "noExit (lift r)" by (cases r) (simp_all add: lift_def noExit_ret noExit_throw)
lemma noExit_logMsg: "noExit (logMsg m)" by (simp add: noExit_def logMsg_def outcome_def)
lemma noExit_sendTx: "noExit (sendTx c t)"
  by (simp add: noExit_def sendTx_def outcome_def split: sent.splits)
lemma noExit_bnd: "noExit m \<Longrightarrow> (\<And>x. noExit (f x)) \<Longrightarrow> noExit (bnd m f)"
  unfolding noExit_def bnd_def outcome_def
  by (auto split: prod.splits outcome.splits) (metis fst_conv)+
lemma noExit_tryCatch: "noExit m \<Longrightarrow> (\<And>e. noExit (h e)) \<Longrightarrow> noExit (tryCatch m h)"
  unfolding noExit_def tryCatch_def outcome_def
  by (auto split: prod.splits outcome.splits) (metis fst_conv)+
lemma noExit_sendAndWait: "noExit (sendAndWait c t)"
  by (simp add: sendAndWait_def noExit_bnd noExit_sendTx noExit_ret)
lemma noExit_whenDo: "(b \<Longrightarrow> noExit m) \<Longrightarrow> noExit (whenDo b m)"
  by (simp add: whenDo_def noExit_ret)

lemmas noExit_intros = noExit_ret noExit_throw noExit_readChain noExit_lift
  noExit_logMsg noExit_sendTx noExit_bnd noExit_tryCatch noExit_sendAndWait noExit_whenDo

lemma swapToUsdc_WETH:
  "swapToUsdc c WETH amount s pk =
     (if amount \<le> 0 then ret False
      else bnd (readChain (\<lambda>w. allowance c w WETH SWAP_ROUTER)) (\<lambda>allow.
           bnd (whenDo (allow < amount) (sendAndWait c (Approve WETH SWAP_ROUTER maxUint256))) (\<lambda>_.
           bnd (sendTx c (ExactInputSingle WETH USDC 500 (account c) amount 0 0)) (\<lambda>_.
           ret True))))"
  by (rule ext) (simp add: swapToUsdc.simps WETH_def USDC_def)

lemma swapToUsdc_other:
  assumes "tokenAddress \<noteq> WETH" and "tokenAddress \<noteq> USDC" and "amount > 0"
  shows "swapToUsdc c tokenAddress amount s (Some poolKey) =
     bnd (readChain (\<lambda>w. balanceOf c w WETH)) (\<lambda>wethBefore.
     bnd (swapViaV4ToWeth c tokenAddress amount poolKey) (\<lambda>_.
     bnd (readChain (\<lambda>w. balanceOf c w WETH)) (\<lambda>wethAfter.
     if wethAfter - wethBefore > 0 then
       bnd (swapToUsdc c WETH (wethAfter - wethBefore) s None) (\<lambda>_. ret True)
     else bnd (logMsg NoWethReceived) (\<lambda>_. ret True))))"
  using assms by (intro ext) (simp add: swapToUsdc.simps [of c tokenAddress] Let_def)

lemma WETH_neq_USDC: "WETH \<noteq> USDC"
  by (simp add: WETH_def USDC_def)

lemma swapToUsdc_cases:
  "swapToUsdc c tokenAddress amount s pk =
    (if amount \<le> 0 then ret False
     else if tokenAddress = USDC then ret False
     else if tokenAddress = WETH then swapToUsdc c WETH amount s pk
     else (case pk of None \<Rightarrow> throw NoV4PoolKey | Some poolKey \<Rightarrow> swapToUsdc c tokenAddress amount s (Some poolKey)))"
proof (cases "tokenAddress = WETH")
  case True
  then show ?thesis by (simp add: swapToUsdc_WETH WETH_neq_USDC)
next
  case False
  then show ?thesis
    by (intro ext) (simp add: swapToUsdc.simps [of c tokenAddress] Let_def split: option.splits)
qed

lemma allEvents_swapViaV4ToWeth:
  assumes "\<And>a s n. P (Tx (Approve a s n))" "\<And>a s n e. P (Tx (Permit2Approve a s n e))"
    "\<And>pk z a. P (Tx (V4SwapExactInSingle pk z a 0 0))"
  shows "allEvents P (swapViaV4ToWeth c tok amount pk)"
  unfolding swapViaV4ToWeth_def Let_def
  by (auto intro!: allEvents_intros assms)

lemma allEvents_swapToUsdc:
  assumes "\<And>a s n. P (Tx (Approve a s n))" "\<And>a s n e. P (Tx (Permit2Approve a s n e))"
    "\<And>pk z a. P (Tx (V4SwapExactInSingle pk z a 0 0))"
    "\<And>a b f r n. P (Tx (ExactInputSingle a b f r n 0 0))"
    "\<And>m. P (Log m)"
  shows "allEvents P (swapToUsdc c tok amount s pk)"
proof -
  have weth: "allEvents P (swapToUsdc c WETH a s k)" for a k
    unfolding swapToUsdc_WETH by (auto intro!: allEvents_intros assms)
  show ?thesis
  proof (cases "tok \<noteq> WETH \<and> tok \<noteq> USDC \<and> amount > 0 \<and> pk \<noteq> None")
    case True
    then obtain poolKey where "pk = Some poolKey" by auto
    with True show ?thesis
      by (auto simp: swapToUsdc_other intro!: allEvents_intros allEvents_swapViaV4ToWeth assms weth)
  next
    case False
    then show ?thesis
      by (subst swapToUsdc_cases) (auto intro!: allEvents_intros weth split: option.splits)
  qed
qed

lemma noExit_swapToUsdc: "noExit (swapToUsdc c tok amount s pk)"
proof -
  have weth: "noExit (swapToUsdc c WETH a s k)" for a k
    unfolding swapToUsdc_WETH by (auto intro!: noExit_intros)
  have v4: "noExit (swapViaV4ToWeth c tok amount poolKey)" for poolKey
    unfolding swapViaV4ToWeth_def Let_def by (auto intro!: noExit_intros)
  show ?thesis
  proof (cases "tok \<noteq> WETH \<and> tok \<noteq> USDC \<and> amount > 0 \<and> pk \<noteq> None")
    case True
    then obtain poolKey where "pk = Some poolKey" by auto
    with True show ?thesis
      by (auto simp: swapToUsdc_other intro!: noExit_intros v4 weth)
  next
    case False
    then show ?thesis
      by (subst swapToUsdc_cases) (auto intro!: noExit_intros weth split: option.splits)
  qed
qed


lemma txs_of_logs: "list_all isLog evs \<Longrightarrow> txs evs = []"
  by (induction evs) (auto simp: txs_def isLog_def split: event.splits)

lemma txs_append: "txs (xs @ ys) = txs xs @ txs ys"
  by (simp add: txs_def)

lemma allEvents_D: "allEvents P m \<Longrightarrow> list_all P (events (m w))"
  by (simp add: allEvents_def)

lemma bnd_readChain: "bnd (readChain g) f w = f (g w) w"
  by (simp add: bnd_def readChain_def split: prod.splits)

lemma bnd_ret: "bnd (ret x) f w = f x w"
  by (simp add: bnd_def ret_def split: prod.splits)

lemma bnd_Done:
  "m w = (Done x, w1, ev) \<Longrightarrow> bnd m f w = (case f x w1 of (r, w2, ev2) \<Rightarrow> (r, w2, ev @ ev2))"
  by (simp add: bnd_def)

lemma io_result: "\<exists>r w' ev. m w = (r, w', ev)"
  by (cases "m w") auto

lemma caught_returns:
  fixes m :: "('w, unit) io"
  assumes "noExit m"
  shows "\<exists>w' ev. tryCatch m (\<lambda>err. logMsg l) w = (Done (), w', ev)"
proof -
  obtain r w' ev where mw: "m w = (r, w', ev)" by (cases "m w") auto
  have "outcome (m w) \<noteq> Exited n" for n
    using assms by (simp add: noExit_def)
  then have "r \<noteq> Exited n" for n
    using mw by (simp add: outcome_def)
  with mw show ?thesis
    by (cases r) (auto simp: tryCatch_def logMsg_def)
qed

lemma whenDo_caught_returns:
  fixes m :: "('w, unit) io"
  assumes "noExit m"
  shows "\<exists>w' ev. whenDo b (tryCatch m (\<lambda>err. logMsg l)) w = (Done (), w', ev)"
  using caught_returns [OF assms, of l w] by (simp add: whenDo_def ret_def)

lemma onTxs_simps [simp]: "onTxs P (Tx t) = P t" "onTxs P (Log m) = True"
  by (simp_all add: onTxs_def)

lemma list_all_onTxs: "list_all (onTxs P) evs \<Longrightarrow> list_all P (txs evs)"
  by (induction evs) (auto simp: txs_def onTxs_def split: event.splits)

lemma allEvents_mono: "allEvents P m \<Longrightarrow> (\<And>e. P e \<Longrightarrow> Q e) \<Longrightarrow> allEvents Q m"
  by (auto simp: allEvents_def list_all_iff)

lemma Tx_in_txs: "Tx t \<in> set evs \<Longrightarrow> t \<in> set (txs evs)"
  by (induction evs) (auto simp: txs_def split: event.splits)

lemma txs_in_events: "t \<in> set (txs evs) \<Longrightarrow> Tx t \<in> set evs"
  by (induction evs) (auto simp: txs_def split: event.splits)

subsection \<open>Which transactions each step can send\<close>

lemma claimStep_events:
  assumes "\<And>f a t. P (Tx (Claim f a t))"
  shows "allEvents P (claimStep cfg c)"
  unfolding claimStep_def
  by (auto intro!: allEvents_intros assms)

lemma collectStep_events:
  assumes "\<And>a n. P (Tx (Approve a PERMIT2 n))" "\<And>i k r. P (Tx (CollectFees i k r))"
  shows "allEvents P (collectStep cfg c)"
  unfolding collectStep_def approvePermit2_def
  by (auto intro!: allEvents_intros assms split: option.splits)

lemma compoundStep_events:
  assumes "\<And>i l a b k. P (Tx (IncreaseLiquidity i l a b k))" "\<And>m. P (Log m)"
  shows "allEvents P (compoundStep cfg fp c pk cw ct)"
  unfolding compoundStep_def Let_def
  by (auto intro!: allEvents_intros assms split: option.splits)

lemma swapPhase_events_gen:
  assumes "\<And>a s n. P (Tx (Approve a s n))" "\<And>a b f r n. P (Tx (ExactInputSingle a b f r n 0 0))"
    "\<And>m. P (Log m)"
  shows "allEvents P (swapPhase cfg c hw ht)"
  unfolding swapPhase_def
  by (auto intro!: allEvents_intros assms)

lemma harvestStep_events:
  assumes "\<And>a s n. P (Tx (Approve a s n))" "\<And>a b f r n. P (Tx (ExactInputSingle a b f r n 0 0))"
    "\<And>m. P (Log m)" "\<And>a b n. P (Tx (Transfer a b n))"
  shows "allEvents P (harvestStep cfg c hw ht)"
  unfolding harvestStep_def transferStep_def
  by (auto intro!: allEvents_intros swapPhase_events_gen assms split: option.splits)

lemma processTotals_events:
  assumes "\<And>m. P (Log m)"
    and "\<And>cw ct. allEvents P (compoundStep cfg fp c pk cw ct)"
    and "\<And>hw ht. allEvents P (harvestStep cfg c hw ht)"
  shows "allEvents P (processTotals cfg fp c e t a b pk)"
  unfolding processTotals_def Let_def
  by (auto intro!: allEvents_intros assms split: prod.splits)

lemma main_events:
  assumes "allEvents P (claimStep cfg c)" "allEvents P (collectStep cfg c)"
    and "\<And>e t a b pk. allEvents P (processTotals cfg fp c e t a b pk)"
  shows "allEvents P (main cfg fp c)"
  unfolding main_def gatherFees_def
  by (auto intro!: allEvents_intros assms split: prod.splits)

lemma addLiquidity_events:
  assumes "\<And>a s n. P (Tx (Approve a s n))" "\<And>i l a b k. P (Tx (IncreaseLiquidity i l a b k))" "\<And>m. P (Log m)"
  shows "allEvents P (addLiquidity fp c tid pk a0 a1 sp tlo tup)"
  unfolding addLiquidity_def ensureApproved_def Let_def
  by (auto intro!: allEvents_intros assms)

lemma cah_splitAndCompound_events:
  assumes "\<And>a s n. P (Tx (Approve a s n))" "\<And>i l a b k. P (Tx (IncreaseLiquidity i l a b k))" "\<And>m. P (Log m)"
  shows "allEvents P (cah_splitAndCompound fp c tid pk pct f0 f1 sp tlo tup)"
  unfolding cah_splitAndCompound_def Let_def
  by (auto intro!: allEvents_intros addLiquidity_events assms split: prod.splits)

lemma cah_swapPhase_events_gen:
  assumes "\<And>a s n. P (Tx (Approve a s n))" "\<And>a s n e. P (Tx (Permit2Approve a s n e))"
    "\<And>pk z a. P (Tx (V4SwapExactInSingle pk z a 0 0))"
    "\<And>a b f r n. P (Tx (ExactInputSingle a b f r n 0 0))"
    "\<And>m. P (Log m)"
  shows "allEvents P (cah_swapPhase c pk h0 h1 s)"
  unfolding cah_swapPhase_def
  by (auto intro!: allEvents_intros allEvents_swapToUsdc assms)

lemma cah_harvest_events:
  assumes "\<And>a s n. P (Tx (Approve a s n))" "\<And>a s n e. P (Tx (Permit2Approve a s n e))"
    "\<And>pk z a. P (Tx (V4SwapExactInSingle pk z a 0 0))"
    "\<And>a b f r n. P (Tx (ExactInputSingle a b f r n 0 0))"
    "\<And>m. P (Log m)" "\<And>a b n. P (Tx (Transfer a b n))"
  shows "allEvents P (cah_harvest c pk vault h0 h1 s)"
  unfolding cah_harvest_def cah_transferStep_def Let_def
  by (auto intro!: allEvents_intros cah_swapPhase_events_gen assms)

lemma cah_main_events:
  assumes "\<And>i k r. P (Tx (CollectFees i k r))"
    and "\<And>tid pk pct f0 f1 sp tlo tup. allEvents P (cah_splitAndCompound fp c tid pk pct f0 f1 sp tlo tup)"
    and "\<And>pk h0 h1 s. allEvents P (cah_harvest c pk (arg_harvestAddress av) h0 h1 s)"
  shows "allEvents P (cah_main av fp c)"
  unfolding cah_main_def collectFees_def Let_def
  by (auto intro!: allEvents_intros assms split: prod.splits)

section \<open>Unfolding sets for concrete runs\<close>

lemmas io_defs = bnd_def ret_def throw_def exitProcess_def readChain_def logMsg_def sendTx_def sendAndWait_def
  whenDo_def tryCatch_def lift_def events_def outcome_def txs_def andThen_def worldAfter_def
lemmas demo_defs = demoCfg_def demoFloats_def demoChain_def demoWorld_def demoPool_def demoToken_def demoVault_def demoArgv_def demoAccount_def demoFeeContract_def
lemmas addr_defs = WETH_def USDC_def PERMIT2_def SWAP_ROUTER_def UNIVERSAL_ROUTER_def maxUint256_def
lemmas clanker_defs = main_def gatherFees_def claimStep_def collectStep_def processTotals_def compoundStep_def harvestStep_def
     swapPhase_def transferStep_def approvePermit2_def getEthPrice_def getTokenPrice_def
     wantCompound_def wantHarvest_def harvestPct_def splitFees_def bigint_quot_def bigint_div_def js_gt_def js_lt_def

lemmas cah_defs = cah_main_def collectFees_def cah_splitAndCompound_def addLiquidity_def ensureApproved_def
  getLiquidityForAmounts_def liq0_def liq1_def cah_harvest_def cah_swapPhase_def cah_transferStep_def
  swapViaV4ToWeth_def js_clamp_def toBigInt_def success_def swapToUsdc.simps

lemma demo_decode:
  "drop_bit 232 demoPosInfo = 16776616"
  "drop_bit 208 demoPosInfo AND 0xFFFFFF = 600"
  "drop_bit 32 demoPosInfo AND 0xFFFFFF = 600"
  "drop_bit 8 demoPosInfo AND 0xFFFFFF = 16776616"
  by code_simp+

lemma demo_ticks:
  "tickToSqrtPriceX96 (- 600) = Inr 76886731765546235930195592750"
  "tickToSqrtPriceX96 600 = Inr 81640896826356156310682304526"
  by code_simp+

lemmas run_defs = clanker_defs cah_defs io_defs demo_defs addr_defs Let_def toInt24_def demo_decode demo_ticks
  inlineLiquidity_def Q96_def

section \<open>LiquidityMath boundaries\<close>

text \<open>
  C5. With lower bound below upper bound, the liquidity from amounts is the token0-only
  formula when the current price is at or below the lower bound, the token1-only formula
  when it is at or above the upper bound, and the minimum of the two per-token formulas
  (each taken against the current price) when it is strictly between. This holds for
  \<open>getLiquidityForAmounts\<close> and for the computation inlined in clanker-harvest; all
  quotients truncate, and no division by zero arises.
\<close>

theorem liquidity_boundaries:
  assumes "sqrtA < sqrtB"
  shows "getLiquidityForAmounts p sqrtA sqrtB a0 a1 =
           (if p \<le> sqrtA then Inr (bigint_quot (a0 * bigint_quot (sqrtA * sqrtB) Q96) (sqrtB - sqrtA))
            else if sqrtB \<le> p then Inr (bigint_quot (a1 * Q96) (sqrtB - sqrtA))
            else Inr (min (bigint_quot (a0 * bigint_quot (p * sqrtB) Q96) (sqrtB - p))
                          (bigint_quot (a1 * Q96) (p - sqrtA))))
       \<and> inlineLiquidity p sqrtA sqrtB a0 a1 =
           (if p \<le> sqrtA then Inr (bigint_quot (a0 * sqrtA * sqrtB) ((sqrtB - sqrtA) * Q96))
            else if sqrtB \<le> p then Inr (bigint_quot (a1 * Q96) (sqrtB - sqrtA))
            else Inr (min (bigint_quot (a0 * p * sqrtB) ((sqrtB - p) * Q96))
                          (bigint_quot (a1 * Q96) (p - sqrtA))))"
proof -
  have q: "Q96 \<noteq> 0" by (simp add: Q96_def)
  show ?thesis
    using assms q
    by (auto simp: getLiquidityForAmounts_def inlineLiquidity_def liq0_def liq1_def
        bigint_div_def andThen_def min_def)
qed

theorem liquidity_boundaries_witness:
  "getLiquidityForAmounts (4 * Q96) (4 * Q96) (8 * Q96) 1000 1000 = Inr 8000
   \<and> getLiquidityForAmounts (8 * Q96) (4 * Q96) (8 * Q96) 1000 1000 = Inr 250
   \<and> getLiquidityForAmounts (5 * Q96) (4 * Q96) (8 * Q96) 1000 1000 = Inr 1000
   \<and> inlineLiquidity (4 * Q96) (4 * Q96) (8 * Q96) 1000 1000 = Inr 8000
   \<and> inlineLiquidity (8 * Q96) (4 * Q96) (8 * Q96) 1000 1000 = Inr 250
   \<and> inlineLiquidity (5 * Q96) (4 * Q96) (8 * Q96) 1000 1000 = Inr 1000"
  using liquidity_boundaries [of "4 * Q96" "8 * Q96" "4 * Q96" 1000 1000]
    liquidity_boundaries [of "4 * Q96" "8 * Q96" "8 * Q96" 1000 1000]
    liquidity_boundaries [of "4 * Q96" "8 * Q96" "5 * Q96" 1000 1000]
  by (simp add: Q96_def bigint_quot_def)

section \<open>Price fallbacks\<close>

text \<open>
  C10. When the price request fails, or its answer has no matching pair, the base-asset
  price lookup returns the constant 2700 (clanker-harvest) or 3200 (compound-and-harvest)
  and the token price lookup returns 0; nothing is thrown. A run of clanker-harvest goes on
  with whatever the two lookups return, and one whose requests fail computes its USD total,
  the one compared with the threshold and reported, from the prices 2700 and 0.
\<close>

theorem price_fallbacks:
  "getEthPrice FetchFailed = Num 2700
   \<and> getEthPrice (Body None) = Num 2700
   \<and> (find (\<lambda>p. chainId p = ''base'' \<and> quoteSymbol p = Some ''USDC'') ps = None
        \<longrightarrow> getEthPrice (Body (Some ps)) = Num 2700)
   \<and> cah_getEthPrice FetchFailed = Num 3200
   \<and> cah_getEthPrice (Body None) = Num 3200
   \<and> (find (\<lambda>p. chainId p = ''base'' \<and> quoteSymbol p = Some ''USDC'') ps = None
        \<longrightarrow> cah_getEthPrice (Body (Some ps)) = Num 3200)
   \<and> getTokenPrice FetchFailed = Num 0
   \<and> getTokenPrice (Body None) = Num 0
   \<and> getTokenPrice (Body (Some [])) = Num 0
   \<and> cah_getTokenPrice FetchFailed = Num 0
   \<and> cah_getTokenPrice (Body None) = Num 0
   \<and> (find (\<lambda>p. chainId p = ''base'') ps = None \<longrightarrow> cah_getTokenPrice (Body (Some ps)) = Num 0)
   \<and> main cfg fp c w =
        bnd (gatherFees cfg c) (\<lambda>(totalWeth, totalToken, poolKey).
          processTotals cfg fp c (getEthPrice (fetchPairs c w WETH))
            (getTokenPrice (fetchPairs c w (token cfg))) totalWeth totalToken poolKey) w
   \<and> (fetchPairs c w WETH = FetchFailed \<and> fetchPairs c w (token cfg) = FetchFailed
        \<longrightarrow> main cfg fp c w =
            bnd (gatherFees cfg c) (\<lambda>(totalWeth, totalToken, poolKey).
              processTotals cfg fp c (Num 2700) (Num 0) totalWeth totalToken poolKey) w)"
proof -
  have m: "main cfg fp c w =
        bnd (gatherFees cfg c) (\<lambda>(totalWeth, totalToken, poolKey).
          processTotals cfg fp c (getEthPrice (fetchPairs c w WETH))
            (getTokenPrice (fetchPairs c w (token cfg))) totalWeth totalToken poolKey) w"
    by (simp add: main_def bnd_readChain)
  have "main cfg fp c w =
            bnd (gatherFees cfg c) (\<lambda>(totalWeth, totalToken, poolKey).
              processTotals cfg fp c (Num 2700) (Num 0) totalWeth totalToken poolKey) w"
    if "fetchPairs c w WETH = FetchFailed" and "fetchPairs c w (token cfg) = FetchFailed"
    using that by (simp add: m getEthPrice_def getTokenPrice_def)
  with m show ?thesis
    by (simp add: getEthPrice_def cah_getEthPrice_def getTokenPrice_def cah_getTokenPrice_def)
qed

theorem price_fallbacks_witness:
  "getEthPrice (Body (Some [])) = Num 2700
   \<and> cah_getEthPrice (Body (Some [])) = Num 3200
   \<and> cah_getTokenPrice (Body (Some [])) = Num 0
   \<and> fetchPairs demoChain demoWorld WETH = FetchFailed
   \<and> fetchPairs demoChain demoWorld (token demoCfg) = FetchFailed
   \<and> main demoCfg demoFloats demoChain demoWorld =
       bnd (gatherFees demoCfg demoChain) (\<lambda>(totalWeth, totalToken, poolKey).
         processTotals demoCfg demoFloats demoChain (Num 2700) (Num 0) totalWeth totalToken poolKey) demoWorld
   \<and> usdValue demoFloats (Num 2700) (Num 0) 1400 0 = Num (189 / 50000000000000)
   \<and> outcome (main demoCfg demoFloats demoChain demoWorld) =
       Done \<lparr>totalUsd = Num (189 / 50000000000000), compounded = Some 50, harvested = 2100, belowThreshold = False\<rparr>"
proof -
  have f: "fetchPairs demoChain demoWorld WETH = FetchFailed"
    "fetchPairs demoChain demoWorld (token demoCfg) = FetchFailed"
    by (simp_all add: demo_defs)
  have r: "outcome (main demoCfg demoFloats demoChain demoWorld) =
       Done \<lparr>totalUsd = Num (189 / 50000000000000), compounded = Some 50, harvested = 2100, belowThreshold = False\<rparr>"
    by (simp add: run_defs)
  have u: "usdValue demoFloats (Num 2700) (Num 0) 1400 0 = Num (189 / 50000000000000)"
    by (simp add: demo_defs)
  show ?thesis
    using price_fallbacks [where ps = "[]" and c = demoChain and w = demoWorld and cfg = demoCfg
        and fp = demoFloats] f r u
    by simp
qed

section \<open>Threshold gate\<close>

lemma gather_events: "allEvents (onTxs gatherTx) (gatherFees cfg c)"
  unfolding gatherFees_def claimStep_def collectStep_def approvePermit2_def
  by (auto intro!: allEvents_intros simp: gatherTx_def split: option.splits prod.splits)

lemma processTotals_below:
  assumes "\<not> (totalWeth = 0 \<and> totalToken = 0)"
    and "js_gt (minUsd cfg) (Num 0)"
    and "js_lt (usdValue fp ethPrice tokenPrice totalWeth totalToken) (minUsd cfg)"
  shows "processTotals cfg fp c ethPrice tokenPrice totalWeth totalToken pk w =
     (Done \<lparr>totalUsd = usdValue fp ethPrice tokenPrice totalWeth totalToken, compounded = Some 0,
            harvested = 0, belowThreshold = True\<rparr>, w,
      [Log (TotalFees (usdValue fp ethPrice tokenPrice totalWeth totalToken) totalWeth totalToken),
       Log BelowThreshold])"
  using assms by (auto simp: processTotals_def Let_def bnd_def logMsg_def ret_def)

text \<open>
  C3 (amended). In clanker-harvest the threshold is checked after the claim and the
  collection. For every run with \<open>minUsd > 0\<close> whose claim and collect steps complete with
  fee totals that are not both zero and whose computed total USD value is below \<open>minUsd\<close>,
  the run returns a result flagged below-threshold, and its only transactions are those the
  claim and collect steps have already sent (fee claims, approvals to Permit2, the fee
  collection): no compound, swap or transfer transaction is issued.
\<close>

theorem threshold_gate:
  assumes "gatherFees cfg c w = (Done (totalWeth, totalToken, pk), w1, ev)"
    and "\<not> (totalWeth = 0 \<and> totalToken = 0)"
    and "js_gt (minUsd cfg) (Num 0)"
    and "js_lt (usdValue fp (getEthPrice (fetchPairs c w WETH)) (getTokenPrice (fetchPairs c w (token cfg)))
                  totalWeth totalToken) (minUsd cfg)"
  shows "outcome (main cfg fp c w) =
           Done \<lparr>totalUsd = usdValue fp (getEthPrice (fetchPairs c w WETH))
                                (getTokenPrice (fetchPairs c w (token cfg))) totalWeth totalToken,
                 compounded = Some 0, harvested = 0, belowThreshold = True\<rparr>
       \<and> txs (events (main cfg fp c w)) = txs ev
       \<and> list_all gatherTx (txs ev)"
proof -
  let ?usd = "usdValue fp (getEthPrice (fetchPairs c w WETH)) (getTokenPrice (fetchPairs c w (token cfg)))
                totalWeth totalToken"
  have run: "main cfg fp c w =
      (Done \<lparr>totalUsd = ?usd, compounded = Some 0, harvested = 0, belowThreshold = True\<rparr>, w1,
       ev @ [Log (TotalFees ?usd totalWeth totalToken), Log BelowThreshold])"
    using assms(1) processTotals_below [OF assms(2,3,4), of c pk w1]
    by (simp add: main_def bnd_readChain) (simp add: bnd_def)
  have "list_all (onTxs gatherTx) (events (gatherFees cfg c w))"
    using gather_events [of cfg c] by (simp add: allEvents_def)
  then have "list_all gatherTx (txs ev)"
    using assms(1) by (auto simp: events_def dest: list_all_onTxs)
  with run show ?thesis
    by (simp add: outcome_def events_def txs_append) (simp add: txs_def)
qed

theorem threshold_gate_witness:
  "gatherFees (demoCfg\<lparr>minUsd := Num 10\<rparr>) demoChain demoWorld =
     (Done (1400, 0, Some demoPool), demoWorld\<lparr>wethBal := 6400, feesWeth := 0, lpWeth := 0\<rparr>,
      [Tx (Claim demoFeeContract demoAccount WETH), Tx (CollectFees 1078751 demoPool demoAccount)])
   \<and> js_gt (minUsd (demoCfg\<lparr>minUsd := Num 10\<rparr>)) (Num 0)
   \<and> outcome (main (demoCfg\<lparr>minUsd := Num 10\<rparr>) demoFloats demoChain demoWorld) =
       Done \<lparr>totalUsd = Num (189 / 50000000000000), compounded = Some 0, harvested = 0, belowThreshold = True\<rparr>
   \<and> txs (events (main (demoCfg\<lparr>minUsd := Num 10\<rparr>) demoFloats demoChain demoWorld)) =
       [Claim demoFeeContract demoAccount WETH, CollectFees 1078751 demoPool demoAccount]
   \<and> list_all gatherTx [Claim demoFeeContract demoAccount WETH, CollectFees 1078751 demoPool demoAccount]"
proof -
  let ?cfg = "demoCfg\<lparr>minUsd := Num 10\<rparr>"
  have g: "gatherFees ?cfg demoChain demoWorld =
     (Done (1400, 0, Some demoPool), demoWorld\<lparr>wethBal := 6400, feesWeth := 0, lpWeth := 0\<rparr>,
      [Tx (Claim demoFeeContract demoAccount WETH), Tx (CollectFees 1078751 demoPool demoAccount)])"
    by (simp add: run_defs)
  have nz: "\<not> ((1400::int) = 0 \<and> (0::int) = 0)" by simp
  have gt: "js_gt (minUsd ?cfg) (Num 0)" by (simp add: run_defs)
  have lt: "js_lt (usdValue demoFloats (getEthPrice (fetchPairs demoChain demoWorld WETH))
                (getTokenPrice (fetchPairs demoChain demoWorld (token ?cfg))) 1400 0) (minUsd ?cfg)"
    by (simp add: run_defs)
  have u: "usdValue demoFloats (getEthPrice (fetchPairs demoChain demoWorld WETH))
                (getTokenPrice (fetchPairs demoChain demoWorld (token ?cfg))) 1400 0 = Num (189 / 50000000000000)"
    by (simp add: run_defs)
  show ?thesis
    using threshold_gate [OF g nz gt lt] g gt u
    by (simp add: txs_def)
qed

text \<open>
  The claim as first stated, that such a run issues no transaction at all, fails: the run
  below ends below the threshold after a fee claim and a fee collection.
\<close>

theorem threshold_gate_counterexample:
  "js_gt (minUsd (demoCfg\<lparr>minUsd := Num 10\<rparr>)) (Num 0)
   \<and> outcome (main (demoCfg\<lparr>minUsd := Num 10\<rparr>) demoFloats demoChain demoWorld) =
       Done \<lparr>totalUsd = Num (189 / 50000000000000), compounded = Some 0, harvested = 0, belowThreshold = True\<rparr>
   \<and> js_lt (Num (189 / 50000000000000)) (minUsd (demoCfg\<lparr>minUsd := Num 10\<rparr>))
   \<and> txs (events (main (demoCfg\<lparr>minUsd := Num 10\<rparr>) demoFloats demoChain demoWorld)) =
       [Claim demoFeeContract demoAccount WETH, CollectFees 1078751 demoPool demoAccount]"
  by (simp add: run_defs)

section \<open>Dry run\<close>

lemma claim_dry: "dryRun cfg \<Longrightarrow> allEvents isLog (claimStep cfg c)"
  unfolding claimStep_def
  by (auto intro!: allEvents_intros)

lemma collect_dry: "dryRun cfg \<Longrightarrow> allEvents isLog (collectStep cfg c)"
  unfolding collectStep_def
  by (auto intro!: allEvents_intros split: option.splits)

lemma compound_dry: "dryRun cfg \<Longrightarrow> allEvents isLog (compoundStep cfg fp c pk a b)"
  unfolding compoundStep_def
  by (auto intro!: allEvents_intros split: option.splits)

lemma harvest_dry: "dryRun cfg \<Longrightarrow> allEvents isLog (harvestStep cfg c a b)"
  unfolding harvestStep_def transferStep_def
  by (auto intro!: allEvents_intros split: option.splits)

lemma process_dry: "dryRun cfg \<Longrightarrow> allEvents isLog (processTotals cfg fp c e t a b pk)"
  unfolding processTotals_def Let_def
  by (auto intro!: allEvents_intros compound_dry harvest_dry simp: isLog_def split: option.splits prod.splits)

lemma main_dry: "dryRun cfg \<Longrightarrow> allEvents isLog (main cfg fp c)"
  unfolding main_def gatherFees_def
  by (auto intro!: allEvents_intros claim_dry collect_dry process_dry split: prod.splits)

lemma gather_dry:
  assumes "dryRun cfg"
  shows "gatherFees cfg c w =
     (Done (if skipClaim cfg then 0 else availableFees c w (feeContract cfg) WETH,
            if skipClaim cfg then 0 else availableFees c w (feeContract cfg) (token cfg),
            case (if \<not> skipLp cfg then tokenId cfg else None) of
              None \<Rightarrow> None | Some tid \<Rightarrow> Some (fst (getPoolAndPositionInfo c w tid))), w, [])"
  using assms
  by (auto simp: gatherFees_def claimStep_def collectStep_def bnd_def readChain_def ret_def
      split: option.splits)

lemma compound_dry_skips: "dryRun cfg \<Longrightarrow> compoundStep cfg fp c pk cw ct = ret ()"
  by (simp add: compoundStep_def split: option.splits)

lemma cah_dry: "arg_dryRun av \<Longrightarrow> events (cah_main av fp c w) = []"
  by (simp add: cah_main_def Let_def bnd_def readChain_def exitProcess_def events_def split: prod.splits)

text \<open>
  C4 (amended). With the dry-run flag set, neither script issues a transaction, whatever
  the threshold and the split. The figures of a dry run are not those of a live run:
  clanker-harvest's dry run takes as totals the fees claimable from the fee contract alone
  (the position's uncollected fees count as zero) and skips the compound step whole, so
  that no liquidity is computed, and compound-and-harvest's dry run ends before it computes
  any figure.
\<close>

theorem dry_run_sends_nothing:
  "(dryRun cfg \<longrightarrow>
      txs (events (main cfg fp c w)) = []
      \<and> gatherFees cfg c w =
          (Done (if skipClaim cfg then 0 else availableFees c w (feeContract cfg) WETH,
                 if skipClaim cfg then 0 else availableFees c w (feeContract cfg) (token cfg),
                 case (if \<not> skipLp cfg then tokenId cfg else None) of
                   None \<Rightarrow> None | Some tid \<Rightarrow> Some (fst (getPoolAndPositionInfo c w tid))), w, [])
      \<and> compoundStep cfg fp c poolKey compoundWeth compoundToken = ret ())
   \<and> (arg_dryRun av \<longrightarrow> events (cah_main av fp c w) = [])"
  using main_dry [THEN allEvents_D, THEN txs_of_logs, of cfg fp c w] gather_dry [of cfg c w]
    compound_dry_skips [of cfg fp c poolKey compoundWeth compoundToken] cah_dry [of av fp c w]
  by blast

theorem dry_run_sends_nothing_witness:
  "dryRun (demoCfg\<lparr>dryRun := True\<rparr>)
   \<and> txs (events (main (demoCfg\<lparr>dryRun := True\<rparr>) demoFloats demoChain demoWorld)) = []
   \<and> gatherFees (demoCfg\<lparr>dryRun := True\<rparr>) demoChain demoWorld = (Done (1000, 0, Some demoPool), demoWorld, [])
   \<and> compoundStep (demoCfg\<lparr>dryRun := True\<rparr>) demoFloats demoChain (Some demoPool) 500 0 = ret ()
   \<and> arg_dryRun (demoArgv\<lparr>arg_dryRun := True\<rparr>)
   \<and> events (cah_main (demoArgv\<lparr>arg_dryRun := True\<rparr>) demoFloats demoChain demoWorld) = []"
  using dry_run_sends_nothing [of "demoCfg\<lparr>dryRun := True\<rparr>" demoFloats demoChain demoWorld
      "Some demoPool" 500 0 "demoArgv\<lparr>arg_dryRun := True\<rparr>"]
  by (simp add: demo_defs WETH_def)

text \<open>
  The claim as first stated, that a dry run computes the figures of the live run, fails: on
  the same chain the dry run splits 1000 and the live run splits 1400, and only the live run
  computes a liquidity.
\<close>

theorem dry_run_counterexample:
  "dryRun (demoCfg\<lparr>dryRun := True\<rparr>)
   \<and> filter isLog (events (main (demoCfg\<lparr>dryRun := True\<rparr>) demoFloats demoChain demoWorld)) =
       [Log (TotalFees (Num (27 / 10000000000000)) 1000 0), Log (SplitCompound 500 0), Log (SplitHarvest 500 0)]
   \<and> filter isLog (events (main (demoCfg\<lparr>dryRun := False\<rparr>) demoFloats demoChain demoWorld)) =
       [Log (TotalFees (Num (189 / 50000000000000)) 1400 0), Log (SplitCompound 700 0), Log (SplitHarvest 700 0),
        Log ZeroLiquiditySkipped]"
  by (simp add: run_defs isLog_def)

section \<open>Vault transfer\<close>

lemma swapPhase_returns: "\<exists>w' ev. swapPhase cfg c hw ht w = (Done (), w', ev)"
  unfolding swapPhase_def
  by (rule whenDo_caught_returns) (auto intro!: noExit_intros)

lemma swapPhase_events: "allEvents notTransfer (swapPhase cfg c hw ht)"
  unfolding swapPhase_def
  by (auto intro!: allEvents_intros simp: notTransfer_def isTransfer_def)

lemma cah_swapPhase_returns: "\<exists>w' ev. cah_swapPhase c pk h0 h1 s w = (Done (), w', ev)"
proof -
  have n: "noExit (bnd (swapToUsdc c a h s (Some pk)) (\<lambda>_. ret ()))" for a h
    by (auto intro!: noExit_intros noExit_swapToUsdc)
  obtain w1 ev1 where 1: "whenDo (h0 > 0) (tryCatch (bnd (swapToUsdc c (currency0 pk) h0 s (Some pk)) (\<lambda>_. ret ()))
               (\<lambda>err. logMsg SwapFailed)) w = (Done (), w1, ev1)"
    using whenDo_caught_returns [OF n] by blast
  obtain w2 ev2 where 2: "whenDo (h1 > 0) (tryCatch (bnd (swapToUsdc c (currency1 pk) h1 s (Some pk)) (\<lambda>_. ret ()))
               (\<lambda>err. logMsg SwapFailed)) w1 = (Done (), w2, ev2)"
    using whenDo_caught_returns [OF n] by blast
  show ?thesis
    unfolding cah_swapPhase_def using 1 2 by (simp add: bnd_def)
qed

lemma cah_swapPhase_events: "allEvents notTransfer (cah_swapPhase c pk h0 h1 s)"
  unfolding cah_swapPhase_def
  by (auto intro!: allEvents_intros allEvents_swapToUsdc simp: notTransfer_def isTransfer_def)

lemma transfers_single [simp]:
  "transfers [Tx (Transfer a b n)] = [Transfer a b n]" "transfers [] = []"
  by (simp_all add: transfers_def txs_def isTransfer_def)

lemma harvestStep_transfers:
  "transfers (events (harvestStep cfg c harvestWeth harvestToken w)) =
    (case (if wantHarvest cfg \<and> (harvestWeth > 0 \<or> harvestToken > 0) then harvestAddress cfg else None) of
       None \<Rightarrow> []
     | Some vault \<Rightarrow>
        (let gained = balanceOf c (worldAfter (swapPhase cfg c harvestWeth harvestToken w)) USDC
                      - balanceOf c w USDC
         in if \<not> dryRun cfg \<and> gained > 0 then [Transfer USDC vault gained] else []))"
proof -
  obtain w1 ev1 where sp: "swapPhase cfg c harvestWeth harvestToken w = (Done (), w1, ev1)"
    using swapPhase_returns [of cfg c harvestWeth harvestToken w] by auto
  have "list_all notTransfer (events (swapPhase cfg c harvestWeth harvestToken w))"
    using swapPhase_events by (rule allEvents_D)
  with sp have nt: "transfers ev1 = []"
    by (simp add: events_def transfers_none)
  have live: "events (sendAndWait c (Transfer USDC vault n) w') = [Tx (Transfer USDC vault n)]" for vault n w'
    by (simp add: sendAndWait_def sendTx_def bnd_def ret_def events_def split: sent.splits)
  show ?thesis
  proof (cases "if wantHarvest cfg \<and> (harvestWeth > 0 \<or> harvestToken > 0) then harvestAddress cfg else None")
    case None
    then show ?thesis by (simp add: harvestStep_def ret_def events_def)
  next
    case (Some vault)
    show ?thesis
    proof (cases "dryRun cfg")
      case True
      with Some show ?thesis
        by (simp add: harvestStep_def transferStep_def whenDo_def bnd_readChain bnd_ret)
           (simp add: ret_def events_def)
    next
      case False
      have "events (harvestStep cfg c harvestWeth harvestToken w) =
          ev1 @ events (transferStep cfg c vault (balanceOf c w1 USDC - balanceOf c w USDC) w1)"
        using Some False sp
        by (simp add: harvestStep_def bnd_readChain bnd_ret
              bnd_Done [of "swapPhase cfg c harvestWeth harvestToken" w "()" w1 ev1])
           (auto simp: bnd_def ret_def readChain_def events_def split: prod.splits outcome.splits)
      then show ?thesis
        using Some False sp nt live
        by (simp add: transfers_append transferStep_def whenDo_def worldAfter_def Let_def)
           (simp add: ret_def events_def)
    qed
  qed
qed

lemma cah_harvest_transfers:
  "transfers (events (cah_harvest c poolKey vault harvest0 harvest1 s w)) =
    (let gained = balanceOf c (worldAfter (cah_swapPhase c poolKey harvest0 harvest1 s w)) USDC
                  - balanceOf c w USDC
     in if \<not> (harvest0 \<le> 0 \<and> harvest1 \<le> 0) \<and> gained > 0 then [Transfer USDC vault gained] else [])"
proof -
  obtain w1 ev1 where sp: "cah_swapPhase c poolKey harvest0 harvest1 s w = (Done (), w1, ev1)"
    using cah_swapPhase_returns [of c poolKey harvest0 harvest1 s w] by auto
  have "list_all notTransfer (events (cah_swapPhase c poolKey harvest0 harvest1 s w))"
    using cah_swapPhase_events by (rule allEvents_D)
  with sp have nt: "transfers ev1 = []"
    by (simp add: events_def transfers_none)
  have fin: "transfers (events (cah_transferStep c vault n w')) = (if n > 0 then [Transfer USDC vault n] else [])"
    for n w'
    by (simp add: cah_transferStep_def sendTx_def bnd_def ret_def exitProcess_def events_def
        split: sent.splits)
  show ?thesis
  proof (cases "harvest0 \<le> 0 \<and> harvest1 \<le> 0")
    case True
    then show ?thesis by (simp add: cah_harvest_def exitProcess_def events_def Let_def)
  next
    case False
    have "events (cah_harvest c poolKey vault harvest0 harvest1 s w) =
        ev1 @ events (cah_transferStep c vault (balanceOf c w1 USDC - balanceOf c w USDC) w1)"
      using False sp
      by (simp add: cah_harvest_def bnd_readChain
            bnd_Done [of "cah_swapPhase c poolKey harvest0 harvest1 s" w "()" w1 ev1] Let_def)
         (auto simp: bnd_def ret_def readChain_def events_def split: prod.splits outcome.splits)
    then show ?thesis
      using False sp nt fin by (simp add: transfers_append worldAfter_def Let_def)
  qed
qed

lemma allEvents_own_transfers:
  "allEvents (onTxs (\<lambda>t. isTransfer t \<longrightarrow> (\<exists>w. t \<in> set (transfers (events (m w)))))) m"
  unfolding allEvents_def list_all_iff
proof (intro allI ballI)
  fix w e assume e: "e \<in> set (events (m w))"
  show "onTxs (\<lambda>t. isTransfer t \<longrightarrow> (\<exists>w. t \<in> set (transfers (events (m w))))) e"
  proof (cases e)
    case (Tx t)
    with e have "isTransfer t \<longrightarrow> t \<in> set (transfers (events (m w)))"
      by (auto simp: transfers_def dest: Tx_in_txs)
    with Tx show ?thesis by auto
  next
    case (Log l)
    then show ?thesis by simp
  qed
qed

lemma fromHarvestStep_other:
  "fromHarvestStep cfg c (Log m)" "\<not> isTransfer t \<Longrightarrow> fromHarvestStep cfg c (Tx t)"
  by (simp_all add: fromHarvestStep_def)

lemma fromCahHarvest_other:
  "fromCahHarvest c v (Log m)" "\<not> isTransfer t \<Longrightarrow> fromCahHarvest c v (Tx t)"
  by (simp_all add: fromCahHarvest_def)

lemma main_transfers: "allEvents (fromHarvestStep cfg c) (main cfg fp c)"
proof -
  have h: "allEvents (fromHarvestStep cfg c) (harvestStep cfg c hw ht)" for hw ht
  proof (rule allEvents_mono [OF allEvents_own_transfers])
    fix e
    assume "onTxs (\<lambda>t. isTransfer t \<longrightarrow> (\<exists>w. t \<in> set (transfers (events (harvestStep cfg c hw ht w))))) e"
    then show "fromHarvestStep cfg c e"
      unfolding fromHarvestStep_def onTxs_def by (cases e) auto
  qed
  show ?thesis
    by (intro main_events processTotals_events claimStep_events collectStep_events compoundStep_events h
          fromHarvestStep_other)
       (simp_all add: isTransfer_def)
qed

lemma cah_main_transfers: "allEvents (fromCahHarvest c (arg_harvestAddress av)) (cah_main av fp c)"
proof -
  let ?P = "fromCahHarvest c (arg_harvestAddress av)"
  have h: "allEvents ?P (cah_harvest c pk (arg_harvestAddress av) h0 h1 s)" for pk h0 h1 s
  proof (rule allEvents_mono [OF allEvents_own_transfers])
    fix e
    assume "onTxs (\<lambda>t. isTransfer t \<longrightarrow>
       (\<exists>w. t \<in> set (transfers (events (cah_harvest c pk (arg_harvestAddress av) h0 h1 s w))))) e"
    then show "?P e"
      unfolding fromCahHarvest_def onTxs_def by (cases e) (simp_all, blast)
  qed
  show ?thesis
    by (intro cah_main_events cah_splitAndCompound_events h fromCahHarvest_other)
       (simp_all add: isTransfer_def)
qed

text \<open>
  C6. The transfer to the vault carries exactly the USDC balance after the swap phase minus
  the USDC balance before it, and is sent only when that difference is positive (and, in
  clanker-harvest, when the run is no dry run): the swap phase always completes and sends no
  transfer itself, so the harvest step of either script sends at most this one transfer.
  Every transfer of a whole run of either script is such a transfer of its harvest step.
\<close>

theorem vault_transfer_is_swap_delta:
  "transfers (events (harvestStep cfg c harvestWeth harvestToken w)) =
    (case (if wantHarvest cfg \<and> (harvestWeth > 0 \<or> harvestToken > 0) then harvestAddress cfg else None) of
       None \<Rightarrow> []
     | Some vault \<Rightarrow>
        (let gained = balanceOf c (worldAfter (swapPhase cfg c harvestWeth harvestToken w)) USDC
                      - balanceOf c w USDC
         in if \<not> dryRun cfg \<and> gained > 0 then [Transfer USDC vault gained] else []))
   \<and> transfers (events (cah_harvest c poolKey vault' harvest0 harvest1 s w)) =
    (let gained = balanceOf c (worldAfter (cah_swapPhase c poolKey harvest0 harvest1 s w)) USDC
                  - balanceOf c w USDC
     in if \<not> (harvest0 \<le> 0 \<and> harvest1 \<le> 0) \<and> gained > 0 then [Transfer USDC vault' gained] else [])
   \<and> (\<forall>t \<in> set (transfers (events (main cfg fp c w0))).
        \<exists>hw ht w1. t \<in> set (transfers (events (harvestStep cfg c hw ht w1))))
   \<and> (\<forall>t \<in> set (transfers (events (cah_main av fp c w0))).
        \<exists>pk h0 h1 s1 w1. t \<in> set (transfers (events (cah_harvest c pk (arg_harvestAddress av) h0 h1 s1 w1))))"
proof -
  have a: "\<exists>hw ht w1. t \<in> set (transfers (events (harvestStep cfg c hw ht w1)))"
    if "t \<in> set (transfers (events (main cfg fp c w0)))" for t
  proof -
    from that have "Tx t \<in> set (events (main cfg fp c w0))" and "isTransfer t"
      by (auto simp: transfers_def dest: txs_in_events)
    moreover have "list_all (fromHarvestStep cfg c) (events (main cfg fp c w0))"
      using main_transfers by (rule allEvents_D)
    ultimately have "fromHarvestStep cfg c (Tx t)" by (auto simp: list_all_iff)
    with \<open>isTransfer t\<close> show ?thesis by (simp add: fromHarvestStep_def)
  qed
  have b: "\<exists>pk h0 h1 s1 w1. t \<in> set (transfers (events (cah_harvest c pk (arg_harvestAddress av) h0 h1 s1 w1)))"
    if "t \<in> set (transfers (events (cah_main av fp c w0)))" for t
  proof -
    from that have "Tx t \<in> set (events (cah_main av fp c w0))" and "isTransfer t"
      by (auto simp: transfers_def dest: txs_in_events)
    moreover have "list_all (fromCahHarvest c (arg_harvestAddress av)) (events (cah_main av fp c w0))"
      using cah_main_transfers by (rule allEvents_D)
    ultimately have "fromCahHarvest c (arg_harvestAddress av) (Tx t)" by (auto simp: list_all_iff)
    with \<open>isTransfer t\<close> show ?thesis by (simp add: fromCahHarvest_def)
  qed
  show ?thesis
    using harvestStep_transfers [of cfg c harvestWeth harvestToken w]
      cah_harvest_transfers [of c poolKey vault' harvest0 harvest1 s w] a b
    by blast
qed

theorem vault_transfer_is_swap_delta_witness:
  "balanceOf demoChain demoWorld USDC = 900
   \<and> balanceOf demoChain (worldAfter (swapPhase demoCfg demoChain 700 0 demoWorld)) USDC = 3000
   \<and> transfers (events (harvestStep demoCfg demoChain 700 0 demoWorld)) = [Transfer USDC demoVault 2100]
   \<and> balanceOf demoChain (worldAfter (cah_swapPhase demoChain demoPool 0 1500 (Num 1) demoWorld)) USDC = 3150
   \<and> transfers (events (cah_harvest demoChain demoPool demoVault 0 1500 (Num 1) demoWorld)) = [Transfer USDC demoVault 2250]
   \<and> transfers (events (main demoCfg demoFloats demoChain demoWorld)) = [Transfer USDC demoVault 2100]
   \<and> (\<exists>hw ht w1. Transfer USDC demoVault 2100 \<in> set (transfers (events (harvestStep demoCfg demoChain hw ht w1))))"
proof -
  have b: "balanceOf demoChain demoWorld USDC = 900"
    by (simp add: demo_defs addr_defs)
  have s1: "balanceOf demoChain (worldAfter (swapPhase demoCfg demoChain 700 0 demoWorld)) USDC = 3000"
    by (simp add: run_defs)
  have s2: "balanceOf demoChain (worldAfter (cah_swapPhase demoChain demoPool 0 1500 (Num 1) demoWorld)) USDC = 3150"
    by (simp add: run_defs)
  have w: "wantHarvest demoCfg" "harvestAddress demoCfg = Some demoVault" "\<not> dryRun demoCfg"
    by (simp_all add: wantHarvest_def harvestPct_def demoCfg_def)
  have m: "transfers (events (main demoCfg demoFloats demoChain demoWorld)) = [Transfer USDC demoVault 2100]"
    by (simp add: run_defs transfers_def isTransfer_def)
  note t = vault_transfer_is_swap_delta [of demoCfg demoChain 700 0 demoWorld demoPool demoVault 0 1500 "Num 1"
      demoFloats demoWorld demoArgv]
  have h: "transfers (events (harvestStep demoCfg demoChain 700 0 demoWorld)) = [Transfer USDC demoVault 2100]"
    using t b s1 w by simp
  have ch: "transfers (events (cah_harvest demoChain demoPool demoVault 0 1500 (Num 1) demoWorld)) = [Transfer USDC demoVault 2250]"
    using t b s2 by simp
  have "\<exists>hw ht w1. Transfer USDC demoVault 2100 \<in> set (transfers (events (harvestStep demoCfg demoChain hw ht w1)))"
    using t m by simp
  with b s1 s2 h ch m show ?thesis by simp
qed

section \<open>Indirect swap\<close>

text \<open>
  C7. For a token that is neither WETH nor USDC and a positive amount, \<open>swapToUsdc\<close> first
  swaps the token to WETH through the V4 route (the last transaction of that step is the V4
  swap of the whole amount), measures the WETH received as the wallet's balance after the
  swap minus the balance before it, and, when that difference is positive, continues exactly
  as \<open>swapToUsdc\<close> on WETH with the difference as its amount, which is the direct
  \<open>exactInputSingle\<close> from WETH to USDC; when the difference is not positive there is no
  second hop.
\<close>

theorem indirect_swap_two_hops:
  assumes "tokenAddress \<noteq> WETH" and "tokenAddress \<noteq> USDC" and "amount > 0"
    and v4: "swapViaV4ToWeth c tokenAddress amount poolKey w = (Done (), w1, ev1)"
  shows "(\<exists>approvals. txs ev1 = approvals @ [V4SwapExactInSingle poolKey (tokenAddress = currency0 poolKey) amount 0 0])
    \<and> (let wethGained = balanceOf c w1 WETH - balanceOf c w WETH in
        if wethGained > 0 then
          events (swapToUsdc c tokenAddress amount s (Some poolKey) w)
            = ev1 @ events (swapToUsdc c WETH wethGained s None w1)
          \<and> worldAfter (swapToUsdc c tokenAddress amount s (Some poolKey) w)
            = worldAfter (swapToUsdc c WETH wethGained s None w1)
          \<and> swapToUsdc c WETH wethGained s None =
              bnd (readChain (\<lambda>w. allowance c w WETH SWAP_ROUTER)) (\<lambda>allow.
              bnd (whenDo (allow < wethGained) (sendAndWait c (Approve WETH SWAP_ROUTER maxUint256))) (\<lambda>_.
              bnd (sendTx c (ExactInputSingle WETH USDC 500 (account c) wethGained 0 0)) (\<lambda>_.
              ret True)))
        else swapToUsdc c tokenAddress amount s (Some poolKey) w = (Done True, w1, ev1 @ [Log NoWethReceived]))"
proof -
  have first: "\<exists>approvals. txs ev1 = approvals @ [V4SwapExactInSingle poolKey (tokenAddress = currency0 poolKey) amount 0 0]"
    using v4
    by (auto simp: swapViaV4ToWeth_def Let_def bnd_readChain bnd_def whenDo_def sendAndWait_def sendTx_def
        ret_def throw_def txs_def split: sent.splits if_splits prod.splits outcome.splits)
  have run: "swapToUsdc c tokenAddress amount s (Some poolKey) w =
      (if balanceOf c w1 WETH - balanceOf c w WETH > 0 then
         (case bnd (swapToUsdc c WETH (balanceOf c w1 WETH - balanceOf c w WETH) s None) (\<lambda>_. ret True) w1 of
            (r, w2, ev2) \<Rightarrow> (r, w2, ev1 @ ev2))
       else (Done True, w1, ev1 @ [Log NoWethReceived]))"
    by (simp add: swapToUsdc_other [OF assms(1,2,3)] bnd_readChain
          bnd_Done [of "swapViaV4ToWeth c tokenAddress amount poolKey" w "()" w1 ev1, OF v4])
       (simp add: bnd_def logMsg_def ret_def)
  show ?thesis
    using first run
    by (auto simp: Let_def swapToUsdc_WETH events_def worldAfter_def bnd_def ret_def
        split: prod.splits outcome.splits)
qed

theorem indirect_swap_two_hops_witness:
  "demoToken \<noteq> WETH \<and> demoToken \<noteq> USDC
   \<and> swapViaV4ToWeth demoChain demoToken 1500 demoPool demoWorld =
       (Done (), demoWorld\<lparr>wethBal := 5750, tokenBal := 68500\<rparr>, [Tx (V4SwapExactInSingle demoPool False 1500 0 0)])
   \<and> balanceOf demoChain (demoWorld\<lparr>wethBal := 5750, tokenBal := 68500\<rparr>) WETH - balanceOf demoChain demoWorld WETH = 750
   \<and> events (swapToUsdc demoChain demoToken 1500 (Num 1) (Some demoPool) demoWorld) =
       [Tx (V4SwapExactInSingle demoPool False 1500 0 0), Tx (ExactInputSingle WETH USDC 500 demoAccount 750 0 0)]
   \<and> swapViaV4ToWeth demoChain demoToken 1 demoPool demoWorld =
       (Done (), demoWorld\<lparr>tokenBal := 69999\<rparr>, [Tx (V4SwapExactInSingle demoPool False 1 0 0)])
   \<and> swapToUsdc demoChain demoToken 1 (Num 1) (Some demoPool) demoWorld =
       (Done True, demoWorld\<lparr>tokenBal := 69999\<rparr>, [Tx (V4SwapExactInSingle demoPool False 1 0 0), Log NoWethReceived])"
proof -
  let ?w1 = "demoWorld\<lparr>wethBal := 5750, tokenBal := 68500\<rparr>"
  let ?w2 = "demoWorld\<lparr>tokenBal := 69999\<rparr>"
  have n: "demoToken \<noteq> WETH" "demoToken \<noteq> USDC"
    by (simp_all add: demoToken_def WETH_def USDC_def)
  have v: "swapViaV4ToWeth demoChain demoToken 1500 demoPool demoWorld =
       (Done (), ?w1, [Tx (V4SwapExactInSingle demoPool False 1500 0 0)])"
    by (simp add: run_defs)
  have v': "swapViaV4ToWeth demoChain demoToken 1 demoPool demoWorld =
       (Done (), ?w2, [Tx (V4SwapExactInSingle demoPool False 1 0 0)])"
    by (simp add: run_defs)
  have d: "balanceOf demoChain ?w1 WETH - balanceOf demoChain demoWorld WETH = 750"
    by (simp add: demo_defs addr_defs)
  have d': "balanceOf demoChain ?w2 WETH - balanceOf demoChain demoWorld WETH = 0"
    by (simp add: demo_defs addr_defs)
  have hop: "events (swapToUsdc demoChain WETH 750 (Num 1) None ?w1) =
       [Tx (ExactInputSingle WETH USDC 500 demoAccount 750 0 0)]"
    by (simp add: run_defs)
  have "events (swapToUsdc demoChain demoToken 1500 (Num 1) (Some demoPool) demoWorld) =
       [Tx (V4SwapExactInSingle demoPool False 1500 0 0), Tx (ExactInputSingle WETH USDC 500 demoAccount 750 0 0)]"
    using indirect_swap_two_hops [OF n, of 1500 demoChain demoPool demoWorld ?w1 _ "Num 1", OF _ v] d hop
    by (simp add: Let_def)
  moreover have "swapToUsdc demoChain demoToken 1 (Num 1) (Some demoPool) demoWorld =
       (Done True, ?w2, [Tx (V4SwapExactInSingle demoPool False 1 0 0), Log NoWethReceived])"
    using indirect_swap_two_hops [OF n, of 1 demoChain demoPool demoWorld ?w2 _ "Num 1", OF _ v'] d'
    by (simp add: Let_def)
  ultimately show ?thesis
    using n v v' d by simp
qed

section \<open>Swap limits\<close>

lemma main_unguarded: "allEvents unguarded (main cfg fp c)"
  by (intro main_events processTotals_events claimStep_events collectStep_events compoundStep_events
        harvestStep_events)
     (simp_all add: unguarded_def swapLimits_def)

lemma cah_main_unguarded: "allEvents unguarded (cah_main av fp c)"
  by (intro cah_main_events cah_splitAndCompound_events cah_harvest_events)
     (simp_all add: unguarded_def swapLimits_def)

text \<open>
  C9. Every swap that a run of either script submits, the direct \<open>exactInputSingle\<close> as
  well as the V4 hop, has \<open>amountOutMinimum = 0\<close> and \<open>sqrtPriceLimitX96 = 0\<close>, for every
  configuration and so for every slippage setting.
\<close>

theorem swaps_accept_any_price:
  "\<forall>t \<in> set (txs (events (main cfg fp c w))) \<union> set (txs (events (cah_main av fp c w'))).
     swapLimits t = None \<or> swapLimits t = Some (0, 0)"
proof
  fix t assume "t \<in> set (txs (events (main cfg fp c w))) \<union> set (txs (events (cah_main av fp c w')))"
  then have "Tx t \<in> set (events (main cfg fp c w)) \<or> Tx t \<in> set (events (cah_main av fp c w'))"
    by (auto dest: txs_in_events)
  moreover have "list_all unguarded (events (main cfg fp c w))"
    using main_unguarded by (rule allEvents_D)
  moreover have "list_all unguarded (events (cah_main av fp c w'))"
    using cah_main_unguarded by (rule allEvents_D)
  ultimately have "unguarded (Tx t)"
    by (auto simp: list_all_iff)
  then show "swapLimits t = None \<or> swapLimits t = Some (0, 0)"
    by (simp add: unguarded_def)
qed

theorem swaps_accept_any_price_witness:
  "ExactInputSingle WETH USDC 500 demoAccount 700 0 0 \<in> set (txs (events (main demoCfg demoFloats demoChain demoWorld)))
   \<and> swapLimits (ExactInputSingle WETH USDC 500 demoAccount 700 0 0) = Some (0, 0)
   \<and> V4SwapExactInSingle demoPool False 1500 0 0 \<in>
        set (txs (events (cah_main demoArgv demoFloats demoChain (demoWorld\<lparr>lpWeth := 0, lpToken := 3000, sqrtPrice := 0\<rparr>))))
   \<and> swapLimits (V4SwapExactInSingle demoPool False 1500 0 0) = Some (0, 0)"
proof -
  let ?w = "demoWorld\<lparr>lpWeth := 0, lpToken := 3000, sqrtPrice := 0\<rparr>"
  have 1: "txs (events (main demoCfg demoFloats demoChain demoWorld)) =
     [Claim demoFeeContract demoAccount WETH, CollectFees 1078751 demoPool demoAccount,
      ExactInputSingle WETH USDC 500 demoAccount 700 0 0, Transfer USDC demoVault 2100]"
    by (simp add: run_defs)
  have 2: "txs (events (cah_main demoArgv demoFloats demoChain ?w)) =
     [CollectFees 1078751 demoPool demoAccount, V4SwapExactInSingle demoPool False 1500 0 0,
      ExactInputSingle WETH USDC 500 demoAccount 750 0 0, Transfer USDC demoVault 2250]"
    by (simp add: run_defs)
  have 3: "ExactInputSingle WETH USDC 500 demoAccount 700 0 0 \<in> set (txs (events (main demoCfg demoFloats demoChain demoWorld)))"
    "V4SwapExactInSingle demoPool False 1500 0 0 \<in> set (txs (events (cah_main demoArgv demoFloats demoChain ?w)))"
    by (simp_all add: 1 2)
  show ?thesis
    using swaps_accept_any_price [of demoCfg demoFloats demoChain demoWorld demoArgv ?w] 3
    by (auto simp: swapLimits_def)
qed

section \<open>Compound fallback\<close>

text \<open>
  With a computed liquidity of zero or less, \<open>addLiquidity\<close> sends nothing. The harvest
  amounts that compound-and-harvest passes to its swaps are the harvest side of the split,
  whatever became of the compound step.
\<close>

lemma addLiquidity_zero_liquidity:
  assumes "sqrtPriceOfTick fp tickLower = Inr sqrtPriceLower"
    and "sqrtPriceOfTick fp tickUpper = Inr sqrtPriceUpper"
    and "getLiquidityForAmounts sqrtPriceX96 sqrtPriceLower sqrtPriceUpper amount0 amount1 = Inr newLiquidity"
    and "newLiquidity \<le> 0"
  shows "addLiquidity fp c tid pk amount0 amount1 sqrtPriceX96 tickLower tickUpper w = (Done ZeroLiquidity, w, [])"
  using assms by (simp add: addLiquidity_def lift_def bnd_ret) (simp add: ret_def)

lemma cah_harvest_amounts_ignore_compound:
  assumes "cah_splitAndCompound fp c tid pk pct fees0 fees1 sp tlo tup w = (Done (harvest0, harvest1), w', ev)"
  shows "\<exists>p. toBigInt pct = Inr p \<and> harvest0 = snd (splitFees fees0 p) \<and> harvest1 = snd (splitFees fees1 p)"
proof (cases "toBigInt pct")
  case (Inl e)
  with assms show ?thesis
    by (simp add: cah_splitAndCompound_def lift_def bnd_def throw_def)
next
  case (Inr p)
  with assms show ?thesis
    by (auto simp: cah_splitAndCompound_def lift_def bnd_ret Let_def bnd_def logMsg_def ret_def
        split: prod.splits outcome.splits)
qed

text \<open>
  C2. When the computed liquidity is zero no increase of liquidity is submitted, but the
  compound side of the split is not handed to the harvest. In the first run
  compound-and-harvest collects 400, splits it 200/200, fails to compound and swaps 200;
  in the second clanker-harvest gathers 1400, splits it 700/700, skips the compound and
  swaps 700.
\<close>

theorem compound_failure_keeps_split:
  "events (cah_main demoArgv demoFloats demoChain demoWorld) =
     [Tx (CollectFees 1078751 demoPool demoAccount),
      Log (SplitCompound 200 0), Log (SplitHarvest 200 0), Log CompoundFailed,
      Tx (ExactInputSingle WETH USDC 500 demoAccount 200 0 0),
      Tx (Transfer USDC demoVault 600)]
   \<and> events (main demoCfg demoFloats demoChain demoWorld) =
     [Tx (Claim demoFeeContract demoAccount WETH),
      Tx (CollectFees 1078751 demoPool demoAccount),
      Log (TotalFees (Num (189 / 50000000000000)) 1400 0),
      Log (SplitCompound 700 0), Log (SplitHarvest 700 0),
      Log ZeroLiquiditySkipped,
      Tx (ExactInputSingle WETH USDC 500 demoAccount 700 0 0),
      Tx (Transfer USDC demoVault 2100)]"
  by (simp add: run_defs)

section \<open>Compound percentage\<close>

text \<open>compound-and-harvest clamps the percentage before it splits.\<close>

lemma cah_pct_clamped: "toBigInt (js_clamp x) = Inr p \<Longrightarrow> 0 \<le> p \<and> p \<le> 100"
  by (cases x) (auto simp: toBigInt_def js_clamp_def split: if_splits intro: floor_mono dest: le_floor_iff [THEN iffD2])

text \<open>
  C8. clanker-harvest uses the parsed percentage as it is. With 150 the compound amount
  (2100) exceeds the total (1400) and the harvest amount is negative; with -50 the harvest
  amount (2100) exceeds the total and the swap spends WETH that was in the wallet before
  the run.
\<close>

theorem unclamped_compound_pct:
  "splitFees 1400 150 = (2100, - 700)
   \<and> events (main (demoCfg\<lparr>compoundPct := Some 150\<rparr>) demoFloats demoChain (demoWorld\<lparr>feesToken := 2000\<rparr>)) =
     [Tx (Claim demoFeeContract demoAccount demoToken),
      Tx (Claim demoFeeContract demoAccount WETH),
      Tx (CollectFees 1078751 demoPool demoAccount),
      Log (TotalFees (Num (189 / 50000000000000)) 1400 2000),
      Log (SplitCompound 2100 3000),
      Tx (IncreaseLiquidity 1078751 71058 2142 3060 demoPool),
      Log CompoundFailed]
   \<and> txs (events (main (demoCfg\<lparr>compoundPct := Some (- 50)\<rparr>) demoFloats demoChain demoWorld)) =
     [Claim demoFeeContract demoAccount WETH,
      CollectFees 1078751 demoPool demoAccount,
      ExactInputSingle WETH USDC 500 demoAccount 2100 0 0,
      Transfer USDC demoVault 6300]"
  by (simp add: run_defs)

end
